theory Spec2Isabelle
  imports Main
begin

section \<open>Runtime values and the schema combinators\<close>

text \<open>
  The schemas of the repository are run on values of unknown shape, so the values they
  inspect are modelled as a datatype of JavaScript values. An object is the list of its
  own properties, in the order of its keys; the keys of an object are pairwise different
  at run time, and where a list binds a key twice the first binding is the one that is
  read. Strings are
  lists of characters, one per code unit, and \<open>length\<close> counts them as the string length
  of the source does. The numeric payload of \<open>JNumber\<close> plays no role: no schema below
  looks into a number.
\<close>

datatype json =
    JUndefined
  | JNull
  | JBoolean bool
  | JNumber int
  | JString string
  | JArray "json list"
  | JObject "(string \<times> json) list"

text \<open>Reading a property: an absent key reads as \<open>undefined\<close>.\<close>

definition field_of :: "(string \<times> json) list \<Rightarrow> string \<Rightarrow> json" where
  "field_of props k = (case map_of props k of None \<Rightarrow> JUndefined | Some v \<Rightarrow> v)"

text \<open>
  A schema is a parser: \<open>None\<close> when the value is rejected, \<open>Some\<close> of the typed output
  when it is accepted. The combinators follow the validation library used by the source:
  \<open>z.string()\<close>, \<open>.min(n)\<close>, \<open>z.boolean()\<close>, \<open>z.literal(s)\<close>, \<open>z.any()\<close>,
  \<open>z.array(s)\<close>, \<open>.optional()\<close>, \<open>.nullable()\<close>, \<open>z.union([...])\<close>, \<open>.regex(r)\<close>,
  \<open>z.record(z.string(), s)\<close>.
\<close>

definition z_string :: "json \<Rightarrow> string option" where
  "z_string v = (case v of JString s \<Rightarrow> Some s | _ \<Rightarrow> None)"

definition z_min :: "nat \<Rightarrow> (json \<Rightarrow> string option) \<Rightarrow> json \<Rightarrow> string option" where
  "z_min n sch v =
     (case sch v of None \<Rightarrow> None | Some s \<Rightarrow> if n \<le> length s then Some s else None)"

definition z_boolean :: "json \<Rightarrow> bool option" where
  "z_boolean v = (case v of JBoolean b \<Rightarrow> Some b | _ \<Rightarrow> None)"

definition z_literal :: "string \<Rightarrow> json \<Rightarrow> string option" where
  "z_literal lit v = (case v of JString s \<Rightarrow> if s = lit then Some s else None | _ \<Rightarrow> None)"

definition z_any :: "json \<Rightarrow> json option" where
  "z_any v = Some v"

fun z_all :: "(json \<Rightarrow> 'a option) \<Rightarrow> json list \<Rightarrow> 'a list option" where
  "z_all sch [] = Some []"
| "z_all sch (v # vs) =
     (case sch v of
        None \<Rightarrow> None
      | Some x \<Rightarrow> (case z_all sch vs of None \<Rightarrow> None | Some xs \<Rightarrow> Some (x # xs)))"

definition z_array :: "(json \<Rightarrow> 'a option) \<Rightarrow> json \<Rightarrow> 'a list option" where
  "z_array sch v = (case v of JArray vs \<Rightarrow> z_all sch vs | _ \<Rightarrow> None)"

definition z_optional :: "(json \<Rightarrow> 'a option) \<Rightarrow> json \<Rightarrow> 'a option option" where
  "z_optional sch v =
     (case v of
        JUndefined \<Rightarrow> Some None
      | _ \<Rightarrow> (case sch v of None \<Rightarrow> None | Some x \<Rightarrow> Some (Some x)))"

definition z_nullable :: "(json \<Rightarrow> 'a option) \<Rightarrow> json \<Rightarrow> 'a option option" where
  "z_nullable sch v =
     (case v of
        JNull \<Rightarrow> Some None
      | _ \<Rightarrow> (case sch v of None \<Rightarrow> None | Some x \<Rightarrow> Some (Some x)))"

fun z_union :: "(json \<Rightarrow> 'a option) list \<Rightarrow> json \<Rightarrow> 'a option" where
  "z_union [] v = None"
| "z_union (sch # schs) v = (case sch v of Some x \<Rightarrow> Some x | None \<Rightarrow> z_union schs v)"

text \<open>
  \<open>z.record(z.string(), s)\<close> builds a new object from the own keys of its input, in
  order. It passes over an own key named \<open>__proto__\<close>, which is therefore absent from the
  output, and validates the value of every other key.
\<close>

fun z_record_values :: "(json \<Rightarrow> 'a option) \<Rightarrow> (string \<times> json) list \<Rightarrow> (string \<times> 'a) list option" where
  "z_record_values sch [] = Some []"
| "z_record_values sch ((k, v) # kvs) =
     (if k = ''__proto__'' then z_record_values sch kvs
      else (case sch v of
              None \<Rightarrow> None
            | Some x \<Rightarrow>
                (case z_record_values sch kvs of
                   None \<Rightarrow> None
                 | Some xs \<Rightarrow> Some ((k, x) # xs))))"

definition z_record :: "(json \<Rightarrow> 'a option) \<Rightarrow> json \<Rightarrow> (string \<times> 'a) list option" where
  "z_record sch v = (case v of JObject kvs \<Rightarrow> z_record_values sch kvs | _ \<Rightarrow> None)"

subsection \<open>Regular expressions\<close>

text \<open>
  The one regular expression of the source has both anchors and no flag, so testing a
  string against it is a match of the whole string. Patterns are a datatype; matching
  is by derivatives, which decides the same language as the backtracking matcher of the
  runtime for patterns built from character classes, sequence, choice and repetition.
\<close>

datatype regex =
    Fail
  | Empty
  | OneOf "char list"
  | NoneOf "char list"
  | Seq regex regex
  | Alt regex regex
  | Star regex

fun nullable :: "regex \<Rightarrow> bool" where
  "nullable Fail = False"
| "nullable Empty = True"
| "nullable (OneOf cs) = False"
| "nullable (NoneOf cs) = False"
| "nullable (Seq r s) = (nullable r \<and> nullable s)"
| "nullable (Alt r s) = (nullable r \<or> nullable s)"
| "nullable (Star r) = True"

fun deriv :: "char \<Rightarrow> regex \<Rightarrow> regex" where
  "deriv c Fail = Fail"
| "deriv c Empty = Fail"
| "deriv c (OneOf cs) = (if c \<in> set cs then Empty else Fail)"
| "deriv c (NoneOf cs) = (if c \<in> set cs then Fail else Empty)"
| "deriv c (Seq r s) =
     (if nullable r then Alt (Seq (deriv c r) s) (deriv c s) else Seq (deriv c r) s)"
| "deriv c (Alt r s) = Alt (deriv c r) (deriv c s)"
| "deriv c (Star r) = Seq (deriv c r) (Star r)"

fun regex_test :: "regex \<Rightarrow> string \<Rightarrow> bool" where
  "regex_test r [] = nullable r"
| "regex_test r (c # cs) = regex_test (deriv c r) cs"

definition z_regex :: "regex \<Rightarrow> (json \<Rightarrow> string option) \<Rightarrow> json \<Rightarrow> string option" where
  "z_regex r sch v =
     (case sch v of None \<Rightarrow> None | Some s \<Rightarrow> if regex_test r s then Some s else None)"

subsection \<open>The language of a pattern\<close>

text \<open>
  What a pattern matches, as a set of strings. This is the reference against which the
  matcher above is checked; it is not run.
\<close>

definition conc :: "string set \<Rightarrow> string set \<Rightarrow> string set" where
  "conc A B = {u @ v | u v. u \<in> A \<and> v \<in> B}"

inductive_set star :: "string set \<Rightarrow> string set" for A :: "string set" where
  star_empty: "[] \<in> star A"
| star_step: "u \<in> A \<Longrightarrow> v \<in> star A \<Longrightarrow> u @ v \<in> star A"

fun lang :: "regex \<Rightarrow> string set" where
  "lang Fail = {}"
| "lang Empty = {[]}"
| "lang (OneOf cs) = {[c] | c. c \<in> set cs}"
| "lang (NoneOf cs) = {[c] | c. c \<notin> set cs}"
| "lang (Seq r s) = conc (lang r) (lang s)"
| "lang (Alt r s) = lang r \<union> lang s"
| "lang (Star r) = star (lang r)"

section \<open>Authorization types\<close>

text \<open>The schemas of the authorization domain (\<open>src/unnamed/part_001\<close>).\<close>

definition permissionErrorKeywordsSchema :: "json \<Rightarrow> string option" where
  "permissionErrorKeywordsSchema =
     z_union [z_literal ''requested permissions'',
              z_literal ''haven't granted it yet'',
              z_literal ''permission denied'']"

definition toolTypeSchema :: "json \<Rightarrow> string option" where
  "toolTypeSchema = z_string"

text \<open>
  \<open>/^[A-Za-z_][A-Za-z0-9_]*\(.+\)$/\<close>. The dot matches every character except the line
  terminators; of these, line feed and carriage return are characters of the model (the
  two Unicode separators U+2028 and U+2029 lie outside the modelled alphabet).
\<close>

definition letters :: "char list" where
  "letters = ''ABCDEFGHIJKLMNOPQRSTUVWXYZabcdefghijklmnopqrstuvwxyz''"

definition digits :: "char list" where
  "digits = ''0123456789''"

definition line_terminators :: "char list" where
  "line_terminators = [CHR 0x0A, CHR 0x0D]"

definition dot :: regex where
  "dot = NoneOf line_terminators"

definition allowedTool_regex :: regex where
  "allowedTool_regex =
     Seq (OneOf (letters @ ''_''))
       (Seq (Star (OneOf (letters @ digits @ ''_'')))
         (Seq (OneOf ''('')
           (Seq (Seq dot (Star dot))
             (OneOf '')''))))"

definition allowedToolSchema :: "json \<Rightarrow> string option" where
  "allowedToolSchema = z_regex allowedTool_regex z_string"

record ToolUse =
  tu_id :: string
  tu_name :: string
  tu_input :: "(string \<times> json) list"

record PermissionRequest =
  toolName :: string
  toolCommand :: string
  originalToolUse :: ToolUse

definition originalToolUseSchema :: "json \<Rightarrow> ToolUse option" where
  "originalToolUseSchema v =
     (case v of
        JObject props \<Rightarrow>
          (case z_string (field_of props ''id'') of
             None \<Rightarrow> None
           | Some i \<Rightarrow>
               (case z_string (field_of props ''name'') of
                  None \<Rightarrow> None
                | Some n \<Rightarrow>
                    (case z_record z_any (field_of props ''input'') of
                       None \<Rightarrow> None
                     | Some inp \<Rightarrow> Some \<lparr>tu_id = i, tu_name = n, tu_input = inp\<rparr>)))
      | _ \<Rightarrow> None)"

definition permissionRequestSchema :: "json \<Rightarrow> PermissionRequest option" where
  "permissionRequestSchema v =
     (case v of
        JObject props \<Rightarrow>
          (case toolTypeSchema (field_of props ''toolName'') of
             None \<Rightarrow> None
           | Some tn \<Rightarrow>
               (case z_string (field_of props ''toolCommand'') of
                  None \<Rightarrow> None
                | Some tc \<Rightarrow>
                    (case originalToolUseSchema (field_of props ''originalToolUse'') of
                       None \<Rightarrow> None
                     | Some tu \<Rightarrow>
                         Some \<lparr>toolName = tn, toolCommand = tc, originalToolUse = tu\<rparr>)))
      | _ \<Rightarrow> None)"

record ContinueMessage =
  c_message :: string
  c_allowedTools :: "string list"

definition continueMessageSchema :: "json \<Rightarrow> ContinueMessage option" where
  "continueMessageSchema v =
     (case v of
        JObject props \<Rightarrow>
          (case z_literal ''continue'' (field_of props ''message'') of
             None \<Rightarrow> None
           | Some m \<Rightarrow>
               (case z_array allowedToolSchema (field_of props ''allowedTools'') of
                  None \<Rightarrow> None
                | Some ts \<Rightarrow> Some \<lparr>c_message = m, c_allowedTools = ts\<rparr>))
      | _ \<Rightarrow> None)"

record AuthorizationState =
  isWaitingForPermission :: bool
  pendingRequest :: "PermissionRequest option"

definition authorizationStateSchema :: "json \<Rightarrow> AuthorizationState option" where
  "authorizationStateSchema v =
     (case v of
        JObject props \<Rightarrow>
          (case z_boolean (field_of props ''isWaitingForPermission'') of
             None \<Rightarrow> None
           | Some b \<Rightarrow>
               (case z_nullable permissionRequestSchema (field_of props ''pendingRequest'') of
                  None \<Rightarrow> None
                | Some r \<Rightarrow> Some \<lparr>isWaitingForPermission = b, pendingRequest = r\<rparr>))
      | _ \<Rightarrow> None)"

section \<open>The session orchestrator\<close>

subsection \<open>Data\<close>

text \<open>
  Modelled from the spec: the \<open>Session\<close> type is declared in the session domain, which is
  not among the sources at hand. The spec gives its shape: an identifier, an optional
  project reference, an optional name and a working directory. The argument of
  \<open>upsert\<close> has the same four fields.
\<close>

record Session =
  s_id :: string
  s_projectId :: "string option"
  s_name :: "string option"
  s_cwd :: string

text \<open>
  Modelled from the spec: \<open>SDKMessage\<close> and \<open>isResultMessage\<close> are declared in the claude
  domain types, not among the sources at hand. A structured message is either a result
  message, which carries the session identifier assigned by the agent, or some other
  message; the remaining content is opaque to the orchestrator.
\<close>

datatype SDKMessage =
    ResultMessage (session_id: string) (result_body: string)
  | OtherMessage (other_body: string)

definition isResultMessage :: "SDKMessage \<Rightarrow> bool" where
  "isResultMessage m = (case m of ResultMessage _ _ \<Rightarrow> True | OtherMessage _ \<Rightarrow> False)"

text \<open>
  Modelled from the spec: \<open>sessionIdSchema\<close> is declared in the session domain, not among
  the sources at hand. The spec describes a session identifier as an opaque non-empty
  string.
\<close>

definition sessionIdSchema :: "json \<Rightarrow> string option" where
  "sessionIdSchema = z_min 1 z_string"

text \<open>Values that are thrown rather than returned, and the outcome of awaiting a call.\<close>

datatype thrown = ZodError | Fault string

datatype 'a Promise = Resolved 'a | Rejected thrown

text \<open>\<open>schema.parse(v)\<close> returns the parsed value or throws.\<close>

definition zod_parse :: "(json \<Rightarrow> 'a option) \<Rightarrow> json \<Rightarrow> thrown + 'a" where
  "zod_parse schema v = (case schema v of None \<Rightarrow> Inl ZodError | Some x \<Rightarrow> Inr x)"

text \<open>The tagged success or failure value that every collaborator and the entry point return.\<close>

datatype ('a, 'e) Result = Ok 'a | Err 'e

text \<open>
  Modelled from the spec: \<open>ApplicationError\<close> is declared in \<open>lib/error\<close>, not among the
  sources at hand. The source constructs it from a message and an optional cause; the
  cause is the error of the validation, the error value a collaborator returned, or
  whatever was caught.
\<close>

datatype cause = ValidationError | ServiceError string | Caught thrown

datatype ApplicationError = ApplicationError string "cause option"

text \<open>
  Modelled from the spec: \<open>validate\<close> is declared in \<open>lib/validation\<close>, not among the
  sources at hand. The spec describes it as a pure function from the raw input to the
  validated value or a validation error.
\<close>

definition validate :: "(json \<Rightarrow> 'a option) \<Rightarrow> json \<Rightarrow> ('a, cause) Result" where
  "validate schema data = (case schema data of Some v \<Rightarrow> Ok v | None \<Rightarrow> Err ValidationError)"

subsection \<open>The input schema\<close>

record SendMessageStreamInput =
  message :: string
  sessionId :: "string option"
  cwd :: "string option"
  allowedTools :: "string list option"
  bypassPermissions :: "bool option"

text \<open>
  An optional string in a condition: \<open>undefined\<close> and the empty string are falsy.
  \<open>truthy s\<close> is the string when it is truthy.
\<close>

definition truthy :: "string option \<Rightarrow> string option" where
  "truthy s = (case s of None \<Rightarrow> None | Some x \<Rightarrow> if x = [] then None else Some x)"

text \<open>The callback of \<open>.refine\<close>: without a session identifier, a working directory is required.\<close>

definition cwd_required :: "SendMessageStreamInput \<Rightarrow> bool" where
  "cwd_required data =
     (if truthy (sessionId data) = None \<and> truthy (cwd data) = None then False else True)"

definition sendMessageStreamInputSchema :: "json \<Rightarrow> SendMessageStreamInput option" where
  "sendMessageStreamInputSchema v =
     (case v of
        JObject props \<Rightarrow>
          (case z_min 1 z_string (field_of props ''message'') of
             None \<Rightarrow> None
           | Some m \<Rightarrow>
          (case z_optional (z_min 1 z_string) (field_of props ''sessionId'') of
             None \<Rightarrow> None
           | Some s \<Rightarrow>
          (case z_optional (z_min 1 z_string) (field_of props ''cwd'') of
             None \<Rightarrow> None
           | Some c \<Rightarrow>
          (case z_optional (z_array z_string) (field_of props ''allowedTools'') of
             None \<Rightarrow> None
           | Some a \<Rightarrow>
          (case z_optional z_boolean (field_of props ''bypassPermissions'') of
             None \<Rightarrow> None
           | Some b \<Rightarrow>
               (let data = \<lparr>message = m, sessionId = s, cwd = c, allowedTools = a,
                            bypassPermissions = b\<rparr>
                in if cwd_required data then Some data else None))))))
      | _ \<Rightarrow> None)"

subsection \<open>Collaborators and effects\<close>

text \<open>
  Modelled from the spec: the \<open>Context\<close> type is declared in the application layer, not
  among the sources at hand. The spec gives the interfaces that the orchestrator
  consumes: \<open>findById\<close> and \<open>upsert\<close> of the session repository and
  \<open>sendMessageStream\<close> of the agent service, with the parameters that the source
  passes. Each call may read and change the world outside the orchestrator (the
  database, the agent), of some type \<open>'w\<close>, and either resolves to a \<open>Result\<close> or
  rejects with a thrown value; a call that never settles is not modelled. The sink
  \<open>onChunk\<close>, of some type \<open>'k\<close>, is only handed on to the agent service.
\<close>

record AgentParams =
  a_message :: string
  a_sessionId :: "string option"
  a_cwd :: "string option"
  a_allowedTools :: "string list option"
  a_bypassPermissions :: "bool option"

record ('k, 'w) Context =
  sessionRepository_findById ::
    "string \<Rightarrow> 'w \<Rightarrow> (Session option, string) Result Promise \<times> 'w"
  sessionRepository_upsert ::
    "Session \<Rightarrow> 'w \<Rightarrow> (Session, string) Result Promise \<times> 'w"
  claudeService_sendMessageStream ::
    "AgentParams \<Rightarrow> 'k \<Rightarrow> 'w \<Rightarrow> (SDKMessage list, string) Result Promise \<times> 'w"

text \<open>
  What a run does besides returning: the calls it issues to the collaborators, with
  their arguments, and the lines it writes with \<open>console.error\<close>, in order.
\<close>

datatype event =
    FindById string
  | Upsert Session
  | AgentSend AgentParams
  | ConsoleError string

type_synonym 'w outcome =
  "(Session \<times> SDKMessage list, ApplicationError) Result Promise \<times> event list \<times> 'w"

subsection \<open>\<open>sendMessageStream\<close>\<close>

text \<open>
  The body of \<open>sendMessageStream\<close> is given in the order of the source, cut at its awaits;
  each part ends by returning or by running the part that follows it in the source. The
  parts are defined last to first. A \<open>Rejected\<close> outcome of a part is an exception that
  leaves the \<open>try\<close> block.
\<close>

text \<open>Lines 146 to 166: the guard on the session, the refreshing upsert, the result.\<close>

definition refreshSession ::
  "('k, 'w) Context \<Rightarrow> Session option \<Rightarrow> SDKMessage list \<Rightarrow> event list \<Rightarrow> 'w \<Rightarrow> 'w outcome" where
  "refreshSession context session messages log w =
     (case session of
        None \<Rightarrow>
          (Resolved (Err (ApplicationError ''Session was not created or found'' None)), log, w)
      | Some s \<Rightarrow>
          (let arg = \<lparr>s_id = s_id s, s_projectId = s_projectId s, s_name = s_name s,
                      s_cwd = s_cwd s\<rparr>
           in case sessionRepository_upsert context arg w of
                (updateSessionResult, w') \<Rightarrow>
                  (case updateSessionResult of
                     Rejected e \<Rightarrow> (Rejected e, log @ [Upsert arg], w')
                   | Resolved (Err e) \<Rightarrow> (Resolved (Ok (s, messages)), log @ [Upsert arg], w')
                   | Resolved (Ok s') \<Rightarrow> (Resolved (Ok (s', messages)), log @ [Upsert arg], w'))))"

text \<open>
  Lines 123 to 127: the session identifiers of the result messages, in order, and the
  first of them; reading index 0 of an empty array gives \<open>undefined\<close>.
\<close>

definition firstSessionId :: "SDKMessage list \<Rightarrow> json" where
  "firstSessionId messages =
     (case filter (\<lambda>i. i \<noteq> None)
             (map (\<lambda>m. if isResultMessage m then Some (session_id m) else None) messages) of
        [] \<Rightarrow> JUndefined
      | i # _ \<Rightarrow> (case i of Some s \<Rightarrow> JString s | None \<Rightarrow> JNull))"

text \<open>Lines 113 to 144: on a call without session identifier, the session is created.\<close>

definition createSession ::
  "('k, 'w) Context \<Rightarrow> SendMessageStreamInput \<Rightarrow> Session option \<Rightarrow> SDKMessage list \<Rightarrow>
     event list \<Rightarrow> 'w \<Rightarrow> 'w outcome" where
  "createSession context params session messages log w =
     (if truthy (sessionId params) = None then
        (case truthy (cwd params) of
           None \<Rightarrow>
             (Resolved (Err (ApplicationError ''cwd is required when creating a new session'' None)),
              log @ [ConsoleError ''[sendMessageStream] Missing cwd for new session''], w)
         | Some params_cwd \<Rightarrow>
             (case zod_parse sessionIdSchema (firstSessionId messages) of
                Inl e \<Rightarrow> (Rejected e, log, w)
              | Inr parsedSessionId \<Rightarrow>
                  (let arg = \<lparr>s_id = parsedSessionId, s_projectId = None, s_name = None,
                              s_cwd = params_cwd\<rparr>
                   in case sessionRepository_upsert context arg w of
                        (createSessionResult, w') \<Rightarrow>
                          (case createSessionResult of
                             Rejected e \<Rightarrow> (Rejected e, log @ [Upsert arg], w')
                           | Resolved (Err e) \<Rightarrow>
                               (Resolved (Err (ApplicationError ''Failed to create session''
                                                 (Some (ServiceError e)))),
                                log @ [Upsert arg,
                                       ConsoleError ''[sendMessageStream] Session creation failed''],
                                w')
                           | Resolved (Ok s) \<Rightarrow>
                               refreshSession context (Some s) messages (log @ [Upsert arg]) w'))))
      else refreshSession context session messages log w)"

text \<open>
  Lines 90 to 96: the parameters handed to the agent service. The session identifier is
  that of the resolved session, for resuming; the working directory is the one of the
  input when that is truthy, otherwise the one of the resolved session.
\<close>

definition agentParams :: "SendMessageStreamInput \<Rightarrow> Session option \<Rightarrow> AgentParams" where
  "agentParams params session =
     \<lparr>a_message = message params,
      a_sessionId = (case session of None \<Rightarrow> None | Some s \<Rightarrow> truthy (Some (s_id s))),
      a_cwd = (case truthy (cwd params) of
                 Some c \<Rightarrow> Some c
               | None \<Rightarrow> (case session of Some s \<Rightarrow> Some (s_cwd s) | None \<Rightarrow> None)),
      a_allowedTools = allowedTools params,
      a_bypassPermissions = bypassPermissions params\<rparr>"

text \<open>Lines 88 to 111: the call of the agent service.\<close>

definition sendToClaude ::
  "('k, 'w) Context \<Rightarrow> SendMessageStreamInput \<Rightarrow> 'k \<Rightarrow> Session option \<Rightarrow>
     event list \<Rightarrow> 'w \<Rightarrow> 'w outcome" where
  "sendToClaude context params onChunk session log w =
     (let arg = agentParams params session
      in case claudeService_sendMessageStream context arg onChunk w of
           (claudeResult, w') \<Rightarrow>
             (case claudeResult of
                Rejected e \<Rightarrow> (Rejected e, log @ [AgentSend arg], w')
              | Resolved (Err e) \<Rightarrow>
                  (Resolved (Err (ApplicationError ''Failed to send message to Claude''
                                    (Some (ServiceError e)))),
                   log @ [AgentSend arg,
                          ConsoleError ''[sendMessageStream] Claude API streaming call failed''],
                   w')
              | Resolved (Ok messages) \<Rightarrow>
                  createSession context params session messages (log @ [AgentSend arg]) w'))"

text \<open>Lines 54 to 86: with a session identifier, the session is read from the repository.\<close>

definition resolveSession ::
  "('k, 'w) Context \<Rightarrow> SendMessageStreamInput \<Rightarrow> 'k \<Rightarrow> 'w \<Rightarrow> 'w outcome" where
  "resolveSession context params onChunk w =
     (case truthy (sessionId params) of
        None \<Rightarrow> sendToClaude context params onChunk None [] w
      | Some params_sessionId \<Rightarrow>
          (case zod_parse sessionIdSchema (JString params_sessionId) of
             Inl e \<Rightarrow> (Rejected e, [], w)
           | Inr parsedSessionId \<Rightarrow>
               (case sessionRepository_findById context parsedSessionId w of
                  (sessionResult, w') \<Rightarrow>
                    (case sessionResult of
                       Rejected e \<Rightarrow> (Rejected e, [FindById parsedSessionId], w')
                     | Resolved (Err e) \<Rightarrow>
                         (Resolved (Err (ApplicationError ''Failed to get session''
                                           (Some (ServiceError e)))),
                          [FindById parsedSessionId,
                           ConsoleError ''[sendMessageStream] Session retrieval failed''],
                          w')
                     | Resolved (Ok None) \<Rightarrow>
                         (Resolved (Err (ApplicationError ''Session not found'' None)),
                          [FindById parsedSessionId,
                           ConsoleError ''[sendMessageStream] Session not found''],
                          w')
                     | Resolved (Ok (Some s)) \<Rightarrow>
                         sendToClaude context params onChunk (Some s)
                           [FindById parsedSessionId] w'))))"

text \<open>Lines 37 to 52 and 167 to 175: the validation, the \<open>try\<close> block and its handler.\<close>

definition sendMessageStream ::
  "('k, 'w) Context \<Rightarrow> json \<Rightarrow> 'k \<Rightarrow> 'w \<Rightarrow> 'w outcome" where
  "sendMessageStream context input onChunk w =
     (case validate sendMessageStreamInputSchema input of
        Err e \<Rightarrow>
          (Resolved (Err (ApplicationError ''Invalid input'' (Some e))),
           [ConsoleError ''[sendMessageStream] Input validation failed''], w)
      | Ok params \<Rightarrow>
          (case resolveSession context params onChunk w of
             (result, log, w') \<Rightarrow>
               (case result of
                  Rejected e \<Rightarrow>
                    (Resolved (Err (ApplicationError ''Unexpected error in sendMessageStream''
                                      (Some (Caught e)))),
                     log @ [ConsoleError ''[sendMessageStream] Unexpected error occurred''],
                     w')
                | Resolved r \<Rightarrow> (Resolved r, log, w'))))"

subsection \<open>Reading a run\<close>

text \<open>The three components of an outcome, and the calls of each kind found in a log.\<close>

definition returned :: "'w outcome \<Rightarrow> (Session \<times> SDKMessage list, ApplicationError) Result Promise" where
  "returned out = fst out"

definition logged :: "'w outcome \<Rightarrow> event list" where
  "logged out = fst (snd out)"

definition agentCalls :: "event list \<Rightarrow> AgentParams list" where
  "agentCalls log = concat (map (\<lambda>e. case e of AgentSend p \<Rightarrow> [p] | _ \<Rightarrow> []) log)"

definition consoleErrors :: "event list \<Rightarrow> string list" where
  "consoleErrors log = concat (map (\<lambda>e. case e of ConsoleError l \<Rightarrow> [l] | _ \<Rightarrow> []) log)"

text \<open>
  Collaborators for the examples: the lookup and the agent answer with fixed outcomes;
  the outcome of an upsert may depend on how many upserts came before, which the world
  counts.
\<close>

definition scripted ::
  "(Session option, string) Result Promise \<Rightarrow>
   (nat \<Rightarrow> Session \<Rightarrow> (Session, string) Result Promise) \<Rightarrow>
   (SDKMessage list, string) Result Promise \<Rightarrow> (unit, nat) Context" where
  "scripted found upserted sent =
     \<lparr>sessionRepository_findById = (\<lambda>i n. (found, n)),
      sessionRepository_upsert = (\<lambda>s n. (upserted n s, Suc n)),
      claudeService_sendMessageStream = (\<lambda>p k n. (sent, n))\<rparr>"

text \<open>
  Collaborators whose agent answers from the parameters it is given, so that a run shows
  what the agent received: one reports the working directory, one the allowed tools.
\<close>

definition answering ::
  "(Session option, string) Result Promise \<Rightarrow>
   (nat \<Rightarrow> Session \<Rightarrow> (Session, string) Result Promise) \<Rightarrow>
   (AgentParams \<Rightarrow> (SDKMessage list, string) Result Promise) \<Rightarrow> (unit, nat) Context" where
  "answering found upserted agent =
     \<lparr>sessionRepository_findById = (\<lambda>i n. (found, n)),
      sessionRepository_upsert = (\<lambda>s n. (upserted n s, Suc n)),
      claudeService_sendMessageStream = (\<lambda>p k n. (agent p, n))\<rparr>"

definition reporting_cwd :: "AgentParams \<Rightarrow> (SDKMessage list, string) Result Promise" where
  "reporting_cwd p =
     Resolved (Ok [ResultMessage ''abc'' (case a_cwd p of None \<Rightarrow> ''no cwd'' | Some c \<Rightarrow> c)])"

definition reporting_tools :: "AgentParams \<Rightarrow> (SDKMessage list, string) Result Promise" where
  "reporting_tools p =
     Resolved (Ok [ResultMessage ''abc''
                     (case a_allowedTools p of None \<Rightarrow> ''no tools'' | Some ts \<Rightarrow> concat ts)])"

subsection \<open>Typed values as runtime values\<close>

text \<open>
  The runtime value of a typed authorization state: the object with the fields of the
  inferred type, \<open>null\<close> for an absent pending request.
\<close>

definition toolUse_json :: "ToolUse \<Rightarrow> json" where
  "toolUse_json u =
     JObject [(''id'', JString (tu_id u)), (''name'', JString (tu_name u)),
              (''input'', JObject (tu_input u))]"

definition permissionRequest_json :: "PermissionRequest \<Rightarrow> json" where
  "permissionRequest_json r =
     JObject [(''toolName'', JString (toolName r)), (''toolCommand'', JString (toolCommand r)),
              (''originalToolUse'', toolUse_json (originalToolUse r))]"

definition authorizationState_json :: "AuthorizationState \<Rightarrow> json" where
  "authorizationState_json st =
     JObject [(''isWaitingForPermission'', JBoolean (isWaitingForPermission st)),
              (''pendingRequest'',
                 (case pendingRequest st of None \<Rightarrow> JNull | Some r \<Rightarrow> permissionRequest_json r))]"

subsection \<open>Examples\<close>

definition hi_input :: json where
  "hi_input = JObject [(''message'', JString ''hi''), (''cwd'', JString ''/tmp/x'')]"

definition hi_params :: SendMessageStreamInput where
  "hi_params = \<lparr>message = ''hi'', sessionId = None, cwd = Some ''/tmp/x'',
                 allowedTools = None, bypassPermissions = None\<rparr>"

definition go_input :: json where
  "go_input = JObject [(''message'', JString ''go''), (''sessionId'', JString ''s1'')]"

definition go_params :: SendMessageStreamInput where
  "go_params = \<lparr>message = ''go'', sessionId = Some ''s1'', cwd = None,
                 allowedTools = None, bypassPermissions = None\<rparr>"

definition read_input :: json where
  "read_input = JObject [(''message'', JString ''hi''), (''cwd'', JString ''/tmp/x''),
                         (''allowedTools'', JArray [JString ''Read''])]"

definition work_session :: Session where
  "work_session = \<lparr>s_id = ''s1'', s_projectId = None, s_name = None, s_cwd = ''/work''\<rparr>"

definition abc_session :: Session where
  "abc_session = \<lparr>s_id = ''abc'', s_projectId = None, s_name = None, s_cwd = ''/tmp/x''\<rparr>"

definition abc_result :: SDKMessage where
  "abc_result = ResultMessage ''abc'' ''done''"

text \<open>A repository that stores what it is given, and one that is out of service.\<close>

definition storing :: "nat \<Rightarrow> Session \<Rightarrow> (Session, string) Result Promise" where
  "storing n s = Resolved (Ok s)"

definition failing :: "nat \<Rightarrow> Session \<Rightarrow> (Session, string) Result Promise" where
  "failing n s = Resolved (Err ''database unavailable'')"

definition failing_after_first :: "nat \<Rightarrow> Session \<Rightarrow> (Session, string) Result Promise" where
  "failing_after_first n s = (if n = 0 then storing n s else failing n s)"

section \<open>The matcher decides the language of the pattern\<close>

lemma nullable_lang: "nullable r \<longleftrightarrow> [] \<in> lang r"
  by (induction r) (auto simp: conc_def intro: star.star_empty)

lemma star_Cons_split:
  assumes "x \<in> star A" and "x = c # w"
  shows "\<exists>u v. w = u @ v \<and> c # u \<in> A \<and> v \<in> star A"
  using assms
proof (induction arbitrary: w rule: star.induct)
  case star_empty
  then show ?case by simp
next
  case (star_step u v)
  show ?case
  proof (cases u)
    case Nil
    with star_step show ?thesis by simp
  next
    case (Cons a u')
    with star_step.prems have "w = u' @ v" and "a = c" by simp_all
    with star_step.hyps Cons show ?thesis by blast
  qed
qed

lemma star_Cons: "c # w \<in> star A \<longleftrightarrow> (\<exists>u v. w = u @ v \<and> c # u \<in> A \<and> v \<in> star A)"
proof
  assume "c # w \<in> star A"
  then show "\<exists>u v. w = u @ v \<and> c # u \<in> A \<and> v \<in> star A"
    by (rule star_Cons_split) simp
next
  assume "\<exists>u v. w = u @ v \<and> c # u \<in> A \<and> v \<in> star A"
  then obtain u v where "w = u @ v" "c # u \<in> A" "v \<in> star A" by blast
  then show "c # w \<in> star A"
    using star.star_step[of "c # u" A v] by simp
qed

lemma conc_Cons:
  "c # w \<in> conc A B \<longleftrightarrow>
     ([] \<in> A \<and> c # w \<in> B) \<or> (\<exists>u v. w = u @ v \<and> c # u \<in> A \<and> v \<in> B)"
  by (auto simp: conc_def Cons_eq_append_conv)

lemma deriv_lang: "w \<in> lang (deriv c r) \<longleftrightarrow> c # w \<in> lang r"
proof (induction r arbitrary: w)
  case (Seq r s)
  then show ?case
    by (auto simp: conc_Cons nullable_lang) (auto simp: conc_def)
next
  case (Star r)
  then show ?case
    by (auto simp: star_Cons) (auto simp: conc_def)
qed auto

lemma regex_test_lang: "regex_test r s \<longleftrightarrow> s \<in> lang r"
  by (induction s arbitrary: r) (simp_all add: nullable_lang deriv_lang)

lemma star_OneOf: "w \<in> star (lang (OneOf cs)) \<longleftrightarrow> set w \<subseteq> set cs"
proof
  assume "w \<in> star (lang (OneOf cs))"
  then show "set w \<subseteq> set cs"
    by (induction rule: star.induct) auto
next
  assume "set w \<subseteq> set cs"
  then show "w \<in> star (lang (OneOf cs))"
  proof (induction w)
    case Nil
    show ?case by (rule star.star_empty)
  next
    case (Cons a w)
    then have "[a] \<in> lang (OneOf cs)" and "w \<in> star (lang (OneOf cs))" by simp_all
    then have "[a] @ w \<in> star (lang (OneOf cs))" by (rule star.star_step)
    then show ?case by simp
  qed
qed

lemma star_NoneOf: "w \<in> star (lang (NoneOf cs)) \<longleftrightarrow> set w \<inter> set cs = {}"
proof
  assume "w \<in> star (lang (NoneOf cs))"
  then show "set w \<inter> set cs = {}"
    by (induction rule: star.induct) auto
next
  assume "set w \<inter> set cs = {}"
  then show "w \<in> star (lang (NoneOf cs))"
  proof (induction w)
    case Nil
    show ?case by (rule star.star_empty)
  next
    case (Cons a w)
    then have "[a] \<in> lang (NoneOf cs)" and "w \<in> star (lang (NoneOf cs))" by simp_all
    then have "[a] @ w \<in> star (lang (NoneOf cs))" by (rule star.star_step)
    then show ?case by simp
  qed
qed

lemma conc_single:
  "w \<in> conc {[c] | c. P c} B \<longleftrightarrow> (\<exists>c v. w = c # v \<and> P c \<and> v \<in> B)"
proof
  assume "w \<in> conc {[c] | c. P c} B"
  then show "\<exists>c v. w = c # v \<and> P c \<and> v \<in> B"
    by (auto simp: conc_def)
next
  assume "\<exists>c v. w = c # v \<and> P c \<and> v \<in> B"
  then obtain c v where "w = [c] @ v" "P c" "v \<in> B" by auto
  then show "w \<in> conc {[c] | c. P c} B"
    unfolding conc_def by blast
qed

lemma lang_Seq_OneOf:
  "w \<in> lang (Seq (OneOf cs) r) \<longleftrightarrow> (\<exists>c v. w = c # v \<and> c \<in> set cs \<and> v \<in> lang r)"
  by (simp only: lang.simps conc_single)

lemma lang_Seq_Star_OneOf:
  "w \<in> lang (Seq (Star (OneOf cs)) r) \<longleftrightarrow>
     (\<exists>u v. w = u @ v \<and> set u \<subseteq> set cs \<and> v \<in> lang r)"
proof -
  have "w \<in> lang (Seq (Star (OneOf cs)) r) \<longleftrightarrow>
          (\<exists>u v. w = u @ v \<and> u \<in> star (lang (OneOf cs)) \<and> v \<in> lang r)"
    unfolding lang.simps(5,7) conc_def by blast
  then show ?thesis by (simp only: star_OneOf)
qed

lemma lang_some_NoneOf:
  "w \<in> lang (Seq (NoneOf cs) (Star (NoneOf cs))) \<longleftrightarrow> w \<noteq> [] \<and> set w \<inter> set cs = {}"
proof -
  have "w \<in> lang (Seq (NoneOf cs) (Star (NoneOf cs))) \<longleftrightarrow>
          (\<exists>c v. w = c # v \<and> c \<notin> set cs \<and> v \<in> star (lang (NoneOf cs)))"
    by (simp only: lang.simps conc_single)
  also have "\<dots> \<longleftrightarrow> (\<exists>c v. w = c # v \<and> c \<notin> set cs \<and> set v \<inter> set cs = {})"
    by (simp only: star_NoneOf)
  also have "\<dots> \<longleftrightarrow> w \<noteq> [] \<and> set w \<inter> set cs = {}"
    by (cases w) auto
  finally show ?thesis .
qed

lemma lang_Seq_last:
  "w \<in> lang (Seq r (OneOf cs)) \<longleftrightarrow> (\<exists>u c. w = u @ [c] \<and> u \<in> lang r \<and> c \<in> set cs)"
  unfolding lang.simps conc_def by blast

text \<open>
  The strings matched by the pattern of an allowed tool: a letter or underscore, then
  letters, digits and underscores, then a parenthesis that opens, a non-empty body free
  of line terminators, and a parenthesis that closes the string.
\<close>

lemma allowedTool_regex_matches:
  "regex_test allowedTool_regex t \<longleftrightarrow>
     (\<exists>n ns args. t = n # ns @ ''('' @ args @ '')'' \<and>
        n \<in> set (letters @ ''_'') \<and> set ns \<subseteq> set (letters @ digits @ ''_'') \<and>
        args \<noteq> [] \<and> set args \<inter> set line_terminators = {})"
proof -
  have "t \<in> lang allowedTool_regex \<longleftrightarrow>
     (\<exists>n v. t = n # v \<and> n \<in> set (letters @ ''_'') \<and>
       (\<exists>ns v'. v = ns @ v' \<and> set ns \<subseteq> set (letters @ digits @ ''_'') \<and>
         (\<exists>c v''. v' = c # v'' \<and> c \<in> set ''('' \<and>
           (\<exists>args c'. v'' = args @ [c'] \<and>
              (args \<noteq> [] \<and> set args \<inter> set line_terminators = {}) \<and> c' \<in> set '')''))))"
    unfolding allowedTool_regex_def dot_def
    by (simp only: lang_Seq_OneOf lang_Seq_Star_OneOf lang_Seq_last lang_some_NoneOf)
  also have "\<dots> \<longleftrightarrow>
     (\<exists>n ns args. t = n # ns @ ''('' @ args @ '')'' \<and>
        n \<in> set (letters @ ''_'') \<and> set ns \<subseteq> set (letters @ digits @ ''_'') \<and>
        args \<noteq> [] \<and> set args \<inter> set line_terminators = {})"
    by (simp del: set_append) blast
  finally show ?thesis
    by (simp only: regex_test_lang)
qed


section \<open>Facts about the schemas\<close>

lemma z_record_values_any:
  "z_record_values z_any kvs = Some (filter (\<lambda>kv. fst kv \<noteq> ''__proto__'') kvs)"
  by (induction kvs) (auto simp: z_any_def)

lemma z_all_strings: "z_all z_string (map JString ts) = Some ts"
  by (induction ts) (auto simp: z_string_def)

lemma z_all_Some:
  "z_all sch vs = Some xs \<Longrightarrow> length xs = length vs \<and> (\<forall>i < length vs. sch (vs ! i) = Some (xs ! i))"
proof (induction vs arbitrary: xs)
  case Nil
  then show ?case by simp
next
  case (Cons v vs)
  then show ?case
    by (auto split: option.splits simp: nth_Cons split: nat.splits)
qed

lemma z_all_rejects: "v \<in> set vs \<Longrightarrow> sch v = None \<Longrightarrow> z_all sch vs = None"
  by (induction vs) (auto split: option.splits)

lemma allowedToolSchema_Some: "allowedToolSchema v = Some t \<Longrightarrow> regex_test allowedTool_regex t"
  by (auto simp: allowedToolSchema_def z_regex_def split: option.splits if_splits)

lemma field_of_Cons:
  "field_of ((k, v) # props) k' = (if k = k' then v else field_of props k')"
  by (simp add: field_of_def)

lemma z_min_1_string: "z_min 1 z_string v = Some s \<longleftrightarrow> v = JString s \<and> s \<noteq> []"
  by (cases v) (auto simp: z_min_def z_string_def Suc_le_eq)

lemma z_optional_min_1_string:
  "z_optional (z_min 1 z_string) v = Some r \<Longrightarrow> truthy r = r"
  by (cases v) (auto simp: z_optional_def truthy_def z_min_def z_string_def split: option.splits if_splits)

lemma schema_fields:
  assumes "sendMessageStreamInputSchema input = Some params"
  obtains props where "input = JObject props"
    and "z_min 1 z_string (field_of props ''message'') = Some (message params)"
    and "z_optional (z_min 1 z_string) (field_of props ''sessionId'') = Some (sessionId params)"
    and "z_optional (z_min 1 z_string) (field_of props ''cwd'') = Some (cwd params)"
    and "z_optional (z_array z_string) (field_of props ''allowedTools'') = Some (allowedTools params)"
    and "z_optional z_boolean (field_of props ''bypassPermissions'') = Some (bypassPermissions params)"
    and "cwd_required params"
proof (cases input)
  case (JObject props)
  with assms show ?thesis
    unfolding sendMessageStreamInputSchema_def Let_def
    by (intro that[of props]) (auto split: option.splits if_splits)
qed (use assms in \<open>simp_all add: sendMessageStreamInputSchema_def\<close>)

lemma schema_valid:
  assumes "sendMessageStreamInputSchema input = Some params"
  shows "message params \<noteq> []"
    and "truthy (sessionId params) = sessionId params"
    and "truthy (cwd params) = cwd params"
    and "sessionId params = None \<Longrightarrow> cwd params \<noteq> None"
proof -
  from assms obtain props where
    m: "z_min 1 z_string (field_of props ''message'') = Some (message params)"
    and s: "z_optional (z_min 1 z_string) (field_of props ''sessionId'') = Some (sessionId params)"
    and c: "z_optional (z_min 1 z_string) (field_of props ''cwd'') = Some (cwd params)"
    and r: "cwd_required params"
    by (rule schema_fields)
  from m show "message params \<noteq> []"
    by (auto simp: z_min_def z_string_def split: json.splits if_splits)
  from s show ts: "truthy (sessionId params) = sessionId params" by (rule z_optional_min_1_string)
  from c show tc: "truthy (cwd params) = cwd params" by (rule z_optional_min_1_string)
  show "cwd params \<noteq> None" if "sessionId params = None"
    using r that ts tc by (auto simp: cwd_required_def split: if_splits)
qed

lemma validate_Some: "sendMessageStreamInputSchema input = Some params \<Longrightarrow> validate sendMessageStreamInputSchema input = Ok params"
  by (simp add: validate_def)

lemma missing_both_rejected:
  assumes "field_of props ''sessionId'' = JUndefined" and "field_of props ''cwd'' = JUndefined"
  shows "sendMessageStreamInputSchema (JObject props) = None"
  using assms
  by (auto simp: sendMessageStreamInputSchema_def Let_def z_optional_def cwd_required_def truthy_def
      split: option.splits)

lemma parse_sessionId: "s \<noteq> [] \<Longrightarrow> zod_parse sessionIdSchema (JString s) = Inr s"
  by (simp add: zod_parse_def sessionIdSchema_def z_min_def z_string_def Suc_le_eq)

lemma parse_undefined: "zod_parse sessionIdSchema JUndefined = Inl ZodError"
  by (simp add: zod_parse_def sessionIdSchema_def z_min_def z_string_def)

lemmas schema_defs =
  sendMessageStreamInputSchema_def field_of_def z_min_def z_string_def z_optional_def
  z_array_def z_boolean_def cwd_required_def truthy_def Let_def

lemmas regex_defs =
  allowedToolSchema_def z_regex_def z_string_def allowedTool_regex_def letters_def digits_def
  dot_def line_terminators_def

lemma hi_valid: "sendMessageStreamInputSchema hi_input = Some hi_params"
  by (simp add: hi_input_def hi_params_def schema_defs)

lemma go_valid: "sendMessageStreamInputSchema go_input = Some go_params"
  by (simp add: go_input_def go_params_def schema_defs)

section \<open>Facts about the runs\<close>

lemma agentCalls_append [simp]: "agentCalls (xs @ ys) = agentCalls xs @ agentCalls ys"
  by (simp add: agentCalls_def)

lemma agentCalls_simps [simp]:
  "agentCalls [] = []"
  "agentCalls (AgentSend p # es) = p # agentCalls es"
  "agentCalls (FindById i # es) = agentCalls es"
  "agentCalls (Upsert s # es) = agentCalls es"
  "agentCalls (ConsoleError l # es) = agentCalls es"
  by (simp_all add: agentCalls_def)

lemma agentCalls_refreshSession:
  "agentCalls (logged (refreshSession context session messages log w)) = agentCalls log"
  by (auto simp: refreshSession_def logged_def Let_def split: option.splits prod.splits Promise.splits Result.splits)

lemma agentCalls_createSession:
  "agentCalls (logged (createSession context params session messages log w)) = agentCalls log"
  using agentCalls_refreshSession[of "context" _ messages]
  by (auto simp: createSession_def  Let_def logged_def split: option.splits prod.splits Promise.splits Result.splits sum.splits)

lemma agentCalls_sendToClaude:
  "agentCalls (logged (sendToClaude context params onChunk session log w)) =
     agentCalls log @ [agentParams params session]"
  using agentCalls_createSession[of "context" params session]
  by (auto simp: sendToClaude_def Let_def logged_def split: option.splits prod.splits Promise.splits Result.splits)


lemma logged_sendMessageStream:
  "sendMessageStreamInputSchema input = Some params \<Longrightarrow>
   agentCalls (logged (sendMessageStream context input onChunk w)) =
   agentCalls (logged (resolveSession context params onChunk w))"
  by (auto simp: sendMessageStream_def validate_def logged_def split: prod.splits Promise.splits)

lemma firstSessionId_none:
  "\<forall>m \<in> set messages. \<not> isResultMessage m \<Longrightarrow> firstSessionId messages = JUndefined"
proof -
  assume "\<forall>m \<in> set messages. \<not> isResultMessage m"
  then have "filter (\<lambda>i. i \<noteq> None)
               (map (\<lambda>m. if isResultMessage m then Some (session_id m) else None) messages) = []"
    by (induction messages) auto
  then show ?thesis by (simp add: firstSessionId_def)
qed

lemma firstSessionId_first:
  assumes "\<forall>m \<in> set pre. \<not> isResultMessage m"
  shows "firstSessionId (pre @ ResultMessage sid body # post) = JString sid"
proof -
  from assms have "filter (\<lambda>i. i \<noteq> None)
               (map (\<lambda>m. if isResultMessage m then Some (session_id m) else None) pre) = []"
    by (induction pre) auto
  then show ?thesis by (simp add: firstSessionId_def isResultMessage_def)
qed

lemma refreshSession_Some:
  "refreshSession context (Some s) messages log w =
     (case sessionRepository_upsert context s w of
        (Rejected e, w') \<Rightarrow> (Rejected e, log @ [Upsert s], w')
      | (Resolved (Err e), w') \<Rightarrow> (Resolved (Ok (s, messages)), log @ [Upsert s], w')
      | (Resolved (Ok s'), w') \<Rightarrow> (Resolved (Ok (s', messages)), log @ [Upsert s], w'))"
proof -
  have eq: "\<And>t :: Session.
      \<lparr>s_id = s_id t, s_projectId = s_projectId t, s_name = s_name t, s_cwd = s_cwd t\<rparr> = t"
    by simp
  show ?thesis
    unfolding refreshSession_def Let_def eq
    by (simp split: prod.splits Promise.splits Result.splits)
qed

lemma run_new_session:
  assumes valid: "sendMessageStreamInputSchema input = Some params"
    and new: "sessionId params = None"
    and dir: "cwd params = Some c"
    and agent: "claudeService_sendMessageStream context (agentParams params None) onChunk w =
                  (Resolved (Ok messages), w1)"
    and first: "messages = pre @ ResultMessage sid body # post"
               "\<forall>m \<in> set pre. \<not> isResultMessage m"
    and nonempty: "sid \<noteq> []"
  shows "sendMessageStream context input onChunk w =
     (let arg = \<lparr>s_id = sid, s_projectId = None, s_name = None, s_cwd = c\<rparr>;
          log = [AgentSend (agentParams params None), Upsert arg]
      in case sessionRepository_upsert context arg w1 of
        (Rejected e, w2) \<Rightarrow>
           (Resolved (Err (ApplicationError ''Unexpected error in sendMessageStream''
                             (Some (Caught e)))),
            log @ [ConsoleError ''[sendMessageStream] Unexpected error occurred''], w2)
      | (Resolved (Err e), w2) \<Rightarrow>
           (Resolved (Err (ApplicationError ''Failed to create session'' (Some (ServiceError e)))),
            log @ [ConsoleError ''[sendMessageStream] Session creation failed''], w2)
      | (Resolved (Ok created), w2) \<Rightarrow>
          (case sessionRepository_upsert context created w2 of
             (Rejected e, w3) \<Rightarrow>
               (Resolved (Err (ApplicationError ''Unexpected error in sendMessageStream''
                                 (Some (Caught e)))),
                log @ [Upsert created,
                       ConsoleError ''[sendMessageStream] Unexpected error occurred''], w3)
           | (Resolved (Err e), w3) \<Rightarrow>
               (Resolved (Ok (created, messages)), log @ [Upsert created], w3)
           | (Resolved (Ok s'), w3) \<Rightarrow>
               (Resolved (Ok (s', messages)), log @ [Upsert created], w3)))"
proof -
  have tc: "truthy (cwd params) = Some c" using schema_valid(3)[OF valid] dir by simp
  have ts: "truthy (sessionId params) = None" using schema_valid(2)[OF valid] new by simp
  show ?thesis
    by (simp add: sendMessageStream_def validate_Some[OF valid] resolveSession_def ts
          sendToClaude_def agent createSession_def tc first(1) firstSessionId_first[OF first(2)]
          parse_sessionId[OF nonempty] refreshSession_Some Let_def
        split: prod.splits Promise.splits Result.splits)
qed

lemma run_existing_session:
  assumes valid: "sendMessageStreamInputSchema input = Some params"
    and sid: "sessionId params = Some sid"
    and found: "sessionRepository_findById context sid w = (Resolved (Ok (Some s)), w1)"
    and agent: "claudeService_sendMessageStream context (agentParams params (Some s)) onChunk w1 =
                  (Resolved (Ok messages), w2)"
  shows "sendMessageStream context input onChunk w =
     (let log = [FindById sid, AgentSend (agentParams params (Some s))]
      in case sessionRepository_upsert context s w2 of
             (Rejected e, w3) \<Rightarrow>
               (Resolved (Err (ApplicationError ''Unexpected error in sendMessageStream''
                                 (Some (Caught e)))),
                log @ [Upsert s,
                       ConsoleError ''[sendMessageStream] Unexpected error occurred''], w3)
           | (Resolved (Err e), w3) \<Rightarrow>
               (Resolved (Ok (s, messages)), log @ [Upsert s], w3)
           | (Resolved (Ok s'), w3) \<Rightarrow>
               (Resolved (Ok (s', messages)), log @ [Upsert s], w3))"
proof -
  have ts: "truthy (sessionId params) = Some sid" using schema_valid(2)[OF valid] sid by simp
  then have ne: "sid \<noteq> []" by (auto simp: truthy_def sid split: if_splits)
  show ?thesis
    by (simp add: sendMessageStream_def validate_Some[OF valid] resolveSession_def ts
          parse_sessionId[OF ne] found
          sendToClaude_def agent createSession_def refreshSession_Some Let_def
        split: prod.splits Promise.splits Result.splits)
qed


lemma agentParams_new:
  assumes "sendMessageStreamInputSchema input = Some params"
  shows "agentParams params None =
           \<lparr>a_message = message params, a_sessionId = None, a_cwd = cwd params,
            a_allowedTools = allowedTools params,
            a_bypassPermissions = bypassPermissions params\<rparr>"
  by (simp add: agentParams_def schema_valid(3)[OF assms] split: option.splits)

lemma agentParams_existing:
  assumes "sendMessageStreamInputSchema input = Some params"
  shows "agentParams params (Some s) =
           \<lparr>a_message = message params, a_sessionId = truthy (Some (s_id s)),
            a_cwd = (case cwd params of Some c \<Rightarrow> Some c | None \<Rightarrow> Some (s_cwd s)),
            a_allowedTools = allowedTools params,
            a_bypassPermissions = bypassPermissions params\<rparr>"
  by (simp add: agentParams_def schema_valid(3)[OF assms] split: option.splits)

lemma run_new_agent:
  assumes valid: "sendMessageStreamInputSchema input = Some params"
    and new: "sessionId params = None"
  shows "sendMessageStream context input onChunk w =
     (let p = agentParams params None
      in case claudeService_sendMessageStream context p onChunk w of
           (Rejected f, w1) \<Rightarrow>
             (Resolved (Err (ApplicationError ''Unexpected error in sendMessageStream''
                               (Some (Caught f)))),
              [AgentSend p, ConsoleError ''[sendMessageStream] Unexpected error occurred''], w1)
         | (Resolved (Err e), w1) \<Rightarrow>
             (Resolved (Err (ApplicationError ''Failed to send message to Claude''
                               (Some (ServiceError e)))),
              [AgentSend p,
               ConsoleError ''[sendMessageStream] Claude API streaming call failed''], w1)
         | (Resolved (Ok messages), w1) \<Rightarrow>
             (case createSession context params None messages [AgentSend p] w1 of
                (Rejected f, log, w2) \<Rightarrow>
                  (Resolved (Err (ApplicationError ''Unexpected error in sendMessageStream''
                                    (Some (Caught f)))),
                   log @ [ConsoleError ''[sendMessageStream] Unexpected error occurred''], w2)
              | (Resolved r, log, w2) \<Rightarrow> (Resolved r, log, w2)))"
proof -
  have ts: "truthy (sessionId params) = None" using schema_valid(2)[OF valid] new by simp
  show ?thesis
    by (simp add: sendMessageStream_def validate_Some[OF valid] resolveSession_def ts
          sendToClaude_def Let_def
        split: prod.splits Promise.splits Result.splits)
qed

lemma run_existing_agent:
  assumes valid: "sendMessageStreamInputSchema input = Some params"
    and sid: "sessionId params = Some sid"
    and found: "sessionRepository_findById context sid w = (Resolved (Ok (Some s)), w1)"
  shows "sendMessageStream context input onChunk w =
     (let p = agentParams params (Some s)
      in case claudeService_sendMessageStream context p onChunk w1 of
           (Rejected f, w2) \<Rightarrow>
             (Resolved (Err (ApplicationError ''Unexpected error in sendMessageStream''
                               (Some (Caught f)))),
              [FindById sid, AgentSend p,
               ConsoleError ''[sendMessageStream] Unexpected error occurred''], w2)
         | (Resolved (Err e), w2) \<Rightarrow>
             (Resolved (Err (ApplicationError ''Failed to send message to Claude''
                               (Some (ServiceError e)))),
              [FindById sid, AgentSend p,
               ConsoleError ''[sendMessageStream] Claude API streaming call failed''], w2)
         | (Resolved (Ok messages), w2) \<Rightarrow>
             (case createSession context params (Some s) messages [FindById sid, AgentSend p] w2 of
                (Rejected f, log, w3) \<Rightarrow>
                  (Resolved (Err (ApplicationError ''Unexpected error in sendMessageStream''
                                    (Some (Caught f)))),
                   log @ [ConsoleError ''[sendMessageStream] Unexpected error occurred''], w3)
              | (Resolved r, log, w3) \<Rightarrow> (Resolved r, log, w3)))"
proof -
  have ts: "truthy (sessionId params) = Some sid" using schema_valid(2)[OF valid] sid by simp
  then have ne: "sid \<noteq> []" by (auto simp: truthy_def sid split: if_splits)
  show ?thesis
    by (simp add: sendMessageStream_def validate_Some[OF valid] resolveSession_def ts
          parse_sessionId[OF ne] found sendToClaude_def Let_def
        split: prod.splits Promise.splits Result.splits)
qed

lemma createSession_existing:
  assumes valid: "sendMessageStreamInputSchema input = Some params"
    and sid: "sessionId params = Some sid"
  shows "createSession context params (Some s) messages log w =
     (case sessionRepository_upsert context s w of
        (Rejected e, w') \<Rightarrow> (Rejected e, log @ [Upsert s], w')
      | (Resolved (Err e), w') \<Rightarrow> (Resolved (Ok (s, messages)), log @ [Upsert s], w')
      | (Resolved (Ok s'), w') \<Rightarrow> (Resolved (Ok (s', messages)), log @ [Upsert s], w'))"
proof -
  have ts: "truthy (sessionId params) = Some sid" using schema_valid(2)[OF valid] sid by simp
  show ?thesis
    by (simp add: createSession_def ts refreshSession_Some)
qed

lemma z_all_strings_conv: "z_all z_string vs = Some ts \<Longrightarrow> vs = map JString ts"
proof (induction vs arbitrary: ts)
  case Nil
  then show ?case by simp
next
  case (Cons v vs)
  then show ?case
    by (cases v) (auto simp: z_string_def split: option.splits)
qed

lemma other_allowedTools_rejected:
  assumes "field_of props ''allowedTools'' = v" and "v \<noteq> JUndefined"
    and "\<forall>ts. v \<noteq> JArray (map JString ts)"
  shows "sendMessageStreamInputSchema (JObject props) = None"
proof -
  have "z_optional (z_array z_string) v = None"
  proof (cases "z_array z_string v")
    case None
    with assms(2) show ?thesis by (cases v) (simp_all add: z_optional_def)
  next
    case (Some ts)
    then obtain vs where "v = JArray vs" and "z_all z_string vs = Some ts"
      by (cases v) (auto simp: z_array_def)
    with z_all_strings_conv assms(3) show ?thesis by blast
  qed
  with assms(1) show ?thesis
    by (simp add: sendMessageStreamInputSchema_def split: option.splits)
qed

lemma schema_allowedTools:
  assumes "sendMessageStreamInputSchema (JObject props) = Some params"
    and "field_of props ''allowedTools'' = JArray (map JString ts)"
  shows "allowedTools params = Some ts"
proof -
  from assms(1) obtain props' where "JObject props = JObject props'"
    and "z_optional (z_array z_string) (field_of props' ''allowedTools'') =
           Some (allowedTools params)"
    by (rule schema_fields)
  with assms(2) show ?thesis
    by (simp add: z_optional_def z_array_def z_all_strings)
qed

section \<open>Properties of the authorization schemas\<close>

text \<open>
  C10. The keyword schema accepts a value exactly when it is one of the three strings
  "requested permissions", "haven't granted it yet" and "permission denied", and it
  returns the string it accepted; every other string and every value that is not a
  string is rejected.
\<close>

theorem permission_keywords_exact:
  "permissionErrorKeywordsSchema v = Some s \<longleftrightarrow>
     v = JString s \<and>
     (s = ''requested permissions'' \<or> s = ''haven't granted it yet'' \<or> s = ''permission denied'')"
  unfolding permissionErrorKeywordsSchema_def
  by (cases v) (auto simp: z_literal_def split: if_splits)

text \<open>
  C9, as the claim states it, fails: the schema of the authorization state accepts a
  state that is waiting for permission and has no pending request.
\<close>

theorem waiting_without_request_accepted:
  "authorizationStateSchema
     (JObject [(''isWaitingForPermission'', JBoolean True), (''pendingRequest'', JNull)]) =
     Some \<lparr>isWaitingForPermission = True, pendingRequest = None\<rparr>"
  by (simp add: authorizationStateSchema_def field_of_def z_boolean_def z_nullable_def)

text \<open>
  C9, amended. The schema constrains the two fields of an authorization state
  independently of each other: every state made of a boolean and of a pending request
  that is absent or a permission request is accepted, whatever the combination. The
  state it is parsed to has the same flag and the same request, except that the input
  of the tool use has lost the key \<open>__proto__\<close> if it had one. The state holds one
  nullable request, so never more than one.
\<close>

theorem every_authorization_state_accepted:
  "authorizationStateSchema (authorizationState_json st) =
     Some (st\<lparr>pendingRequest :=
                map_option
                  (\<lambda>r. r\<lparr>originalToolUse :=
                            (originalToolUse r)
                              \<lparr>tu_input :=
                                 filter (\<lambda>kv. fst kv \<noteq> ''__proto__'')
                                   (tu_input (originalToolUse r))\<rparr>\<rparr>)
                  (pendingRequest st)\<rparr>)"
proof -
  have tool: "originalToolUseSchema (toolUse_json u) =
                Some (u\<lparr>tu_input := filter (\<lambda>kv. fst kv \<noteq> ''__proto__'') (tu_input u)\<rparr>)" for u
    by (simp add: originalToolUseSchema_def toolUse_json_def field_of_def z_string_def
          z_record_def z_record_values_any)
  have request: "permissionRequestSchema (permissionRequest_json r) =
                   Some (r\<lparr>originalToolUse :=
                             (originalToolUse r)
                               \<lparr>tu_input :=
                                  filter (\<lambda>kv. fst kv \<noteq> ''__proto__'')
                                    (tu_input (originalToolUse r))\<rparr>\<rparr>)" for r
    by (simp add: permissionRequestSchema_def permissionRequest_json_def field_of_def
          toolTypeSchema_def z_string_def tool)
  have pending: "z_nullable permissionRequestSchema
                   (case pendingRequest st of None \<Rightarrow> JNull | Some r \<Rightarrow> permissionRequest_json r) =
                 Some (map_option
                  (\<lambda>r. r\<lparr>originalToolUse :=
                            (originalToolUse r)
                              \<lparr>tu_input :=
                                 filter (\<lambda>kv. fst kv \<noteq> ''__proto__'')
                                   (tu_input (originalToolUse r))\<rparr>\<rparr>)
                  (pendingRequest st))"
  proof (cases "pendingRequest st")
    case None
    then show ?thesis by (simp add: z_nullable_def)
  next
    case (Some r)
    have "permissionRequest_json r \<noteq> JNull" by (simp add: permissionRequest_json_def)
    then show ?thesis
      using request[of r] Some
      by (cases "permissionRequest_json r") (simp_all add: z_nullable_def)
  qed
  show ?thesis
    by (simp add: authorizationStateSchema_def authorizationState_json_def field_of_def
          z_boolean_def pending)
qed

text \<open>
  C3, as the claim states it, fails on the initial call: the input schema accepts an
  entry of \<open>allowedTools\<close> that does not match the pattern, and the run hands it to the
  agent.
\<close>

theorem unmatched_grant_reaches_agent:
  "allowedToolSchema (JString ''Read'') = None \<and>
   map a_allowedTools
     (agentCalls (logged (sendMessageStream
        (scripted (Resolved (Ok None)) storing (Resolved (Ok [abc_result]))) read_input () 0))) =
     [Some [''Read'']] \<and>
   returned (sendMessageStream (answering (Resolved (Ok None)) storing reporting_tools)
     read_input () 0) =
     Resolved (Ok (abc_session, [ResultMessage ''abc'' ''Read'']))"
proof -
  have valid: "sendMessageStreamInputSchema read_input =
                 Some (hi_params\<lparr>allowedTools := Some [''Read'']\<rparr>)"
    by (simp add: read_input_def hi_params_def schema_defs)
  have "allowedToolSchema (JString ''Read'') = None"
    by (simp add: regex_defs)
  moreover have "map a_allowedTools
     (agentCalls (logged (sendMessageStream
        (scripted (Resolved (Ok None)) storing (Resolved (Ok [abc_result]))) read_input () 0))) =
     [Some [''Read'']]"
    by (simp add: logged_sendMessageStream[OF valid] resolveSession_def truthy_def hi_params_def
          agentCalls_sendToClaude agentParams_def)
  moreover have "returned (sendMessageStream (answering (Resolved (Ok None)) storing reporting_tools)
     read_input () 0) =
     Resolved (Ok (abc_session, [ResultMessage ''abc'' ''Read'']))"
    by (simp add: returned_def sendMessageStream_def validate_def valid resolveSession_def
          sendToClaude_def agentParams_def createSession_def refreshSession_def
          firstSessionId_def isResultMessage_def parse_sessionId hi_params_def truthy_def
          answering_def reporting_tools_def storing_def abc_session_def Let_def)
  ultimately show ?thesis by simp
qed

text \<open>
  C3, amended. The schema of an allowed tool accepts exactly the strings of the form
  \<open>Name(args)\<close>: a letter or underscore, then letters, digits and underscores, then a
  parenthesized non-empty body (free of line terminators) that ends the string. On a
  continue directive every entry of \<open>allowedTools\<close> is validated by it: a directive
  with an entry that it rejects is rejected as a whole, and every entry of an accepted
  directive is accepted by it. On the initial call the entries are only required to be
  strings. Any list of strings is accepted as \<open>allowedTools\<close>, whenever the input is
  accepted without them; an \<open>allowedTools\<close> that is present and is not an array of
  strings makes the run fail with the error "Invalid input" before any call of the
  repository or the agent. The list of an accepted input is handed to the agent service
  unchanged, on the new-session path and on the existing-session path.
\<close>

theorem allowed_tools_validation:
  "(\<forall>v t. allowedToolSchema v = Some t \<longleftrightarrow>
          v = JString t \<and>
          (\<exists>n ns args. t = n # ns @ ''('' @ args @ '')'' \<and>
             n \<in> set (letters @ ''_'') \<and> set ns \<subseteq> set (letters @ digits @ ''_'') \<and>
             args \<noteq> [] \<and> set args \<inter> set line_terminators = {})) \<and>
   (\<forall>vs. field_of props ''allowedTools'' = JArray vs \<and>
          (\<exists>v \<in> set vs. allowedToolSchema v = None) \<longrightarrow>
          continueMessageSchema (JObject props) = None) \<and>
   (\<forall>d. continueMessageSchema (JObject props) = Some d \<longrightarrow>
          (\<forall>t \<in> set (c_allowedTools d). allowedToolSchema (JString t) = Some t)) \<and>
   (\<forall>ts. sendMessageStreamInputSchema
            (JObject ((''allowedTools'', JArray (map JString ts)) # props)) =
          map_option (\<lambda>p. p\<lparr>allowedTools := Some ts\<rparr>)
            (sendMessageStreamInputSchema (JObject ((''allowedTools'', JUndefined) # props)))) \<and>
   (\<forall>v. field_of props ''allowedTools'' = v \<and> v \<noteq> JUndefined \<and>
         (\<forall>ts. v \<noteq> JArray (map JString ts)) \<longrightarrow>
         sendMessageStream context (JObject props) onChunk w =
           (Resolved (Err (ApplicationError ''Invalid input'' (Some ValidationError))),
             [ConsoleError ''[sendMessageStream] Input validation failed''], w)) \<and>
   (\<forall>params ts.
         sendMessageStreamInputSchema (JObject props) = Some params \<and>
         field_of props ''allowedTools'' = JArray (map JString ts) \<and>
         sessionId params = None \<longrightarrow>
         sendMessageStream context (JObject props) onChunk w =
              (let p = \<lparr>a_message = message params, a_sessionId = None, a_cwd = cwd params,
                        a_allowedTools = Some ts,
                        a_bypassPermissions = bypassPermissions params\<rparr>
               in case claudeService_sendMessageStream context p onChunk w of
                    (Rejected f, w1) \<Rightarrow>
                      (Resolved (Err (ApplicationError ''Unexpected error in sendMessageStream''
                                        (Some (Caught f)))),
                       [AgentSend p,
                        ConsoleError ''[sendMessageStream] Unexpected error occurred''], w1)
                  | (Resolved (Err e), w1) \<Rightarrow>
                      (Resolved (Err (ApplicationError ''Failed to send message to Claude''
                                        (Some (ServiceError e)))),
                       [AgentSend p,
                        ConsoleError ''[sendMessageStream] Claude API streaming call failed''],
                       w1)
                  | (Resolved (Ok messages), w1) \<Rightarrow>
                      (case createSession context params None messages [AgentSend p] w1 of
                         (Rejected f, log, w2) \<Rightarrow>
                           (Resolved (Err (ApplicationError
                                             ''Unexpected error in sendMessageStream''
                                             (Some (Caught f)))),
                            log @ [ConsoleError ''[sendMessageStream] Unexpected error occurred''],
                            w2)
                       | (Resolved r, log, w2) \<Rightarrow> (Resolved r, log, w2)))) \<and>
   (\<forall>params ts sid s w1.
         sendMessageStreamInputSchema (JObject props) = Some params \<and>
         field_of props ''allowedTools'' = JArray (map JString ts) \<and>
         sessionId params = Some sid \<and>
         sessionRepository_findById context sid w = (Resolved (Ok (Some s)), w1) \<longrightarrow>
         sendMessageStream context (JObject props) onChunk w =
              (let p = \<lparr>a_message = message params, a_sessionId = truthy (Some (s_id s)),
                        a_cwd = (case cwd params of Some c \<Rightarrow> Some c | None \<Rightarrow> Some (s_cwd s)),
                        a_allowedTools = Some ts,
                        a_bypassPermissions = bypassPermissions params\<rparr>
               in case claudeService_sendMessageStream context p onChunk w1 of
                    (Rejected f, w2) \<Rightarrow>
                      (Resolved (Err (ApplicationError ''Unexpected error in sendMessageStream''
                                        (Some (Caught f)))),
                       [FindById sid, AgentSend p,
                        ConsoleError ''[sendMessageStream] Unexpected error occurred''], w2)
                  | (Resolved (Err e), w2) \<Rightarrow>
                      (Resolved (Err (ApplicationError ''Failed to send message to Claude''
                                        (Some (ServiceError e)))),
                       [FindById sid, AgentSend p,
                        ConsoleError ''[sendMessageStream] Claude API streaming call failed''],
                       w2)
                  | (Resolved (Ok messages), w2) \<Rightarrow>
                      (case createSession context params (Some s) messages
                              [FindById sid, AgentSend p] w2 of
                         (Rejected f, log, w3) \<Rightarrow>
                           (Resolved (Err (ApplicationError
                                             ''Unexpected error in sendMessageStream''
                                             (Some (Caught f)))),
                            log @ [ConsoleError ''[sendMessageStream] Unexpected error occurred''],
                            w3)
                       | (Resolved r, log, w3) \<Rightarrow> (Resolved r, log, w3))))"
proof (intro conjI allI impI)
  fix v t
  have "allowedToolSchema v = Some t \<longleftrightarrow> v = JString t \<and> regex_test allowedTool_regex t"
    by (cases v) (auto simp: allowedToolSchema_def z_regex_def z_string_def)
  then show "allowedToolSchema v = Some t \<longleftrightarrow>
          v = JString t \<and>
          (\<exists>n ns args. t = n # ns @ ''('' @ args @ '')'' \<and>
             n \<in> set (letters @ ''_'') \<and> set ns \<subseteq> set (letters @ digits @ ''_'') \<and>
             args \<noteq> [] \<and> set args \<inter> set line_terminators = {})"
    by (simp only: allowedTool_regex_matches)
next
  fix vs
  assume "field_of props ''allowedTools'' = JArray vs \<and>
          (\<exists>v \<in> set vs. allowedToolSchema v = None)"
  then show "continueMessageSchema (JObject props) = None"
    by (auto simp: continueMessageSchema_def z_array_def z_all_rejects split: option.splits)
next
  fix d
  assume ok: "continueMessageSchema (JObject props) = Some d"
  then obtain vs where vs: "field_of props ''allowedTools'' = JArray vs"
    and all: "z_all allowedToolSchema vs = Some (c_allowedTools d)"
    by (auto simp: continueMessageSchema_def z_array_def split: option.splits json.splits)
  show "\<forall>t \<in> set (c_allowedTools d). allowedToolSchema (JString t) = Some t"
  proof
    fix t
    assume "t \<in> set (c_allowedTools d)"
    then obtain i where i: "i < length (c_allowedTools d)" "c_allowedTools d ! i = t"
      by (auto simp: in_set_conv_nth)
    with z_all_Some[OF all] have "allowedToolSchema (vs ! i) = Some t" by auto
    then have "regex_test allowedTool_regex t" by (rule allowedToolSchema_Some)
    then show "allowedToolSchema (JString t) = Some t"
      by (simp add: allowedToolSchema_def z_regex_def z_string_def)
  qed
next
  fix ts
  have tools: "z_optional (z_array z_string) (JArray (map JString ts)) = Some (Some ts)"
    by (simp add: z_optional_def z_array_def z_all_strings)
  have none: "z_optional (z_array z_string) JUndefined = Some None"
    by (simp add: z_optional_def)
  show "sendMessageStreamInputSchema
            (JObject ((''allowedTools'', JArray (map JString ts)) # props)) =
          map_option (\<lambda>p. p\<lparr>allowedTools := Some ts\<rparr>)
            (sendMessageStreamInputSchema (JObject ((''allowedTools'', JUndefined) # props)))"
    by (simp add: sendMessageStreamInputSchema_def field_of_Cons tools none Let_def
          cwd_required_def split: option.splits)
next
  fix v
  assume "field_of props ''allowedTools'' = v \<and> v \<noteq> JUndefined \<and>
         (\<forall>ts. v \<noteq> JArray (map JString ts))"
  then have "sendMessageStreamInputSchema (JObject props) = None"
    using other_allowedTools_rejected[of props v] by blast
  then show "sendMessageStream context (JObject props) onChunk w =
           (Resolved (Err (ApplicationError ''Invalid input'' (Some ValidationError))),
             [ConsoleError ''[sendMessageStream] Input validation failed''], w)"
    by (simp add: sendMessageStream_def validate_def)
next
  fix params ts
  assume "sendMessageStreamInputSchema (JObject props) = Some params \<and>
         field_of props ''allowedTools'' = JArray (map JString ts) \<and>
         sessionId params = None"
  then have valid: "sendMessageStreamInputSchema (JObject props) = Some params"
    and tools: "field_of props ''allowedTools'' = JArray (map JString ts)"
    and new: "sessionId params = None"
    by simp_all
  show "sendMessageStream context (JObject props) onChunk w =
              (let p = \<lparr>a_message = message params, a_sessionId = None, a_cwd = cwd params,
                        a_allowedTools = Some ts,
                        a_bypassPermissions = bypassPermissions params\<rparr>
               in case claudeService_sendMessageStream context p onChunk w of
                    (Rejected f, w1) \<Rightarrow>
                      (Resolved (Err (ApplicationError ''Unexpected error in sendMessageStream''
                                        (Some (Caught f)))),
                       [AgentSend p,
                        ConsoleError ''[sendMessageStream] Unexpected error occurred''], w1)
                  | (Resolved (Err e), w1) \<Rightarrow>
                      (Resolved (Err (ApplicationError ''Failed to send message to Claude''
                                        (Some (ServiceError e)))),
                       [AgentSend p,
                        ConsoleError ''[sendMessageStream] Claude API streaming call failed''],
                       w1)
                  | (Resolved (Ok messages), w1) \<Rightarrow>
                      (case createSession context params None messages [AgentSend p] w1 of
                         (Rejected f, log, w2) \<Rightarrow>
                           (Resolved (Err (ApplicationError
                                             ''Unexpected error in sendMessageStream''
                                             (Some (Caught f)))),
                            log @ [ConsoleError ''[sendMessageStream] Unexpected error occurred''],
                            w2)
                       | (Resolved r, log, w2) \<Rightarrow> (Resolved r, log, w2)))"
    unfolding run_new_agent[OF valid new] agentParams_new[OF valid]
      schema_allowedTools[OF valid tools]
    by (rule refl)
next
  fix params ts sid s w1
  assume "sendMessageStreamInputSchema (JObject props) = Some params \<and>
         field_of props ''allowedTools'' = JArray (map JString ts) \<and>
         sessionId params = Some sid \<and>
         sessionRepository_findById context sid w = (Resolved (Ok (Some s)), w1)"
  then have valid: "sendMessageStreamInputSchema (JObject props) = Some params"
    and tools: "field_of props ''allowedTools'' = JArray (map JString ts)"
    and sid: "sessionId params = Some sid"
    and found: "sessionRepository_findById context sid w = (Resolved (Ok (Some s)), w1)"
    by simp_all
  show "sendMessageStream context (JObject props) onChunk w =
              (let p = \<lparr>a_message = message params, a_sessionId = truthy (Some (s_id s)),
                        a_cwd = (case cwd params of Some c \<Rightarrow> Some c | None \<Rightarrow> Some (s_cwd s)),
                        a_allowedTools = Some ts,
                        a_bypassPermissions = bypassPermissions params\<rparr>
               in case claudeService_sendMessageStream context p onChunk w1 of
                    (Rejected f, w2) \<Rightarrow>
                      (Resolved (Err (ApplicationError ''Unexpected error in sendMessageStream''
                                        (Some (Caught f)))),
                       [FindById sid, AgentSend p,
                        ConsoleError ''[sendMessageStream] Unexpected error occurred''], w2)
                  | (Resolved (Err e), w2) \<Rightarrow>
                      (Resolved (Err (ApplicationError ''Failed to send message to Claude''
                                        (Some (ServiceError e)))),
                       [FindById sid, AgentSend p,
                        ConsoleError ''[sendMessageStream] Claude API streaming call failed''],
                       w2)
                  | (Resolved (Ok messages), w2) \<Rightarrow>
                      (case createSession context params (Some s) messages
                              [FindById sid, AgentSend p] w2 of
                         (Rejected f, log, w3) \<Rightarrow>
                           (Resolved (Err (ApplicationError
                                             ''Unexpected error in sendMessageStream''
                                             (Some (Caught f)))),
                            log @ [ConsoleError ''[sendMessageStream] Unexpected error occurred''],
                            w3)
                       | (Resolved r, log, w3) \<Rightarrow> (Resolved r, log, w3)))"
    unfolding run_existing_agent[OF valid sid found] agentParams_existing[OF valid]
      schema_allowedTools[OF valid tools]
    by (rule refl)
qed

theorem allowed_tools_validation_witness:
  "continueMessageSchema
     (JObject [(''message'', JString ''continue''), (''allowedTools'', JArray [JString ''Read''])]) =
     None \<and>
   continueMessageSchema
     (JObject [(''message'', JString ''continue''),
               (''allowedTools'', JArray [JString ''Bash(npm:*)''])]) =
     Some \<lparr>c_message = ''continue'', c_allowedTools = [''Bash(npm:*)'']\<rparr> \<and>
   allowedToolSchema (JString ''Bash(npm:*)'') = Some ''Bash(npm:*)'' \<and>
   sendMessageStreamInputSchema
     (JObject [(''allowedTools'', JArray (map JString [''Read''])), (''message'', JString ''hi''),
               (''cwd'', JString ''/tmp/x'')]) =
     Some \<lparr>message = ''hi'', sessionId = None, cwd = Some ''/tmp/x'',
           allowedTools = Some [''Read''], bypassPermissions = None\<rparr> \<and>
   sendMessageStream (answering (Resolved (Ok None)) storing reporting_tools)
     (JObject [(''allowedTools'', JString ''Read''), (''message'', JString ''hi''),
               (''cwd'', JString ''/tmp/x'')]) () 0 =
     (Resolved (Err (ApplicationError ''Invalid input'' (Some ValidationError))),
      [ConsoleError ''[sendMessageStream] Input validation failed''], 0) \<and>
   sendMessageStream (answering (Resolved (Ok None)) storing reporting_tools)
     (JObject [(''allowedTools'', JArray (map JString [''Read''])), (''message'', JString ''hi''),
               (''cwd'', JString ''/tmp/x'')]) () 0 =
     (Resolved (Ok (abc_session, [ResultMessage ''abc'' ''Read''])),
      [AgentSend \<lparr>a_message = ''hi'', a_sessionId = None, a_cwd = Some ''/tmp/x'',
                  a_allowedTools = Some [''Read''], a_bypassPermissions = None\<rparr>,
       Upsert abc_session, Upsert abc_session], 2) \<and>
   sendMessageStream (answering (Resolved (Ok (Some work_session))) storing reporting_tools)
     (JObject [(''allowedTools'', JArray (map JString [''Read''])), (''message'', JString ''go''),
               (''sessionId'', JString ''s1'')]) () 0 =
     (Resolved (Ok (work_session, [ResultMessage ''abc'' ''Read''])),
      [FindById ''s1'',
       AgentSend \<lparr>a_message = ''go'', a_sessionId = Some ''s1'', a_cwd = Some ''/work'',
                  a_allowedTools = Some [''Read''], a_bypassPermissions = None\<rparr>,
       Upsert work_session], 1)"
proof -
  let ?bad = "[(''message'', JString ''continue''), (''allowedTools'', JArray [JString ''Read''])]"
  let ?good = "[(''message'', JString ''continue''),
                (''allowedTools'', JArray [JString ''Bash(npm:*)''])]"
  let ?rest = "[(''message'', JString ''hi''), (''cwd'', JString ''/tmp/x'')]"
  let ?plain = "[(''allowedTools'', JString ''Read''), (''message'', JString ''hi''),
                (''cwd'', JString ''/tmp/x'')]"
  let ?fresh = "[(''allowedTools'', JArray (map JString [''Read''])), (''message'', JString ''hi''),
                 (''cwd'', JString ''/tmp/x'')]"
  let ?resumed = "[(''allowedTools'', JArray (map JString [''Read''])),
                   (''message'', JString ''go''), (''sessionId'', JString ''s1'')]"
  let ?hi = "hi_params\<lparr>allowedTools := Some [''Read'']\<rparr>"
  let ?go = "go_params\<lparr>allowedTools := Some [''Read'']\<rparr>"
  let ?new = "answering (Resolved (Ok None)) storing reporting_tools"
  let ?old = "answering (Resolved (Ok (Some work_session))) storing reporting_tools"
  have bad: "field_of ?bad ''allowedTools'' = JArray [JString ''Read''] \<and>
             (\<exists>v \<in> set [JString ''Read'']. allowedToolSchema v = None)"
    by (simp add: field_of_def regex_defs)
  have good: "continueMessageSchema (JObject ?good) =
                Some \<lparr>c_message = ''continue'', c_allowedTools = [''Bash(npm:*)'']\<rparr>"
    by (simp add: continueMessageSchema_def field_of_def z_literal_def z_array_def regex_defs)
  have without: "sendMessageStreamInputSchema (JObject ((''allowedTools'', JUndefined) # ?rest)) =
                   Some hi_params"
    by (simp add: hi_params_def schema_defs)
  have plain: "field_of ?plain ''allowedTools'' = JString ''Read'' \<and> JString ''Read'' \<noteq> JUndefined \<and>
              (\<forall>ts. JString ''Read'' \<noteq> JArray (map JString ts))"
    by (simp add: field_of_def)
  have fresh: "sendMessageStreamInputSchema (JObject ?fresh) = Some ?hi \<and>
               field_of ?fresh ''allowedTools'' = JArray (map JString [''Read'']) \<and>
               sessionId ?hi = None"
    by (simp add: hi_params_def schema_defs)
  have resumed: "sendMessageStreamInputSchema (JObject ?resumed) = Some ?go \<and>
               field_of ?resumed ''allowedTools'' = JArray (map JString [''Read'']) \<and>
               sessionId ?go = Some ''s1'' \<and>
               sessionRepository_findById ?old ''s1'' 0 = (Resolved (Ok (Some work_session)), 0)"
    by (simp add: go_params_def schema_defs answering_def)
  note second = conjunct2[THEN conjunct1]
  note third = conjunct2[THEN conjunct2, THEN conjunct1]
  note fourth = conjunct2[THEN conjunct2, THEN conjunct2, THEN conjunct1]
  note fifth = conjunct2[THEN conjunct2, THEN conjunct2, THEN conjunct2, THEN conjunct1]
  note sixth = conjunct2[THEN conjunct2, THEN conjunct2, THEN conjunct2, THEN conjunct2,
                 THEN conjunct1]
  note seventh = conjunct2[THEN conjunct2, THEN conjunct2, THEN conjunct2, THEN conjunct2,
                   THEN conjunct2]
  from allowed_tools_validation[of ?bad ?new "()" 0, THEN second, rule_format, OF bad]
  have 1: "continueMessageSchema (JObject ?bad) = None" .
  from allowed_tools_validation[of ?good ?new "()" 0, THEN third, rule_format, OF good]
  have 2: "allowedToolSchema (JString ''Bash(npm:*)'') = Some ''Bash(npm:*)''" by simp
  from allowed_tools_validation[of ?rest ?new "()" 0, THEN fourth, rule_format, of "[''Read'']"]
    without
  have 3: "sendMessageStreamInputSchema
             (JObject ((''allowedTools'', JArray (map JString [''Read''])) # ?rest)) =
           Some (hi_params\<lparr>allowedTools := Some [''Read'']\<rparr>)"
    by simp
  from allowed_tools_validation[of ?plain ?new "()" 0, THEN fifth, rule_format, OF plain]
  have 4: "sendMessageStream ?new (JObject ?plain) () 0 =
           (Resolved (Err (ApplicationError ''Invalid input'' (Some ValidationError))),
            [ConsoleError ''[sendMessageStream] Input validation failed''], 0)" .
  from allowed_tools_validation[of ?fresh ?new "()" 0, THEN sixth, rule_format, OF fresh]
  have 5: "sendMessageStream ?new (JObject ?fresh) () 0 =
     (Resolved (Ok (abc_session, [ResultMessage ''abc'' ''Read''])),
      [AgentSend \<lparr>a_message = ''hi'', a_sessionId = None, a_cwd = Some ''/tmp/x'',
                  a_allowedTools = Some [''Read''], a_bypassPermissions = None\<rparr>,
       Upsert abc_session, Upsert abc_session], 2)"
    by (simp add: hi_params_def abc_session_def truthy_def answering_def reporting_tools_def
          storing_def createSession_def refreshSession_def firstSessionId_def
          isResultMessage_def parse_sessionId Let_def)
  from allowed_tools_validation[of ?resumed ?old "()" 0, THEN seventh, rule_format, OF resumed]
  have 6: "sendMessageStream ?old (JObject ?resumed) () 0 =
     (Resolved (Ok (work_session, [ResultMessage ''abc'' ''Read''])),
      [FindById ''s1'',
       AgentSend \<lparr>a_message = ''go'', a_sessionId = Some ''s1'', a_cwd = Some ''/work'',
                  a_allowedTools = Some [''Read''], a_bypassPermissions = None\<rparr>,
       Upsert work_session], 1)"
    by (simp add: go_params_def work_session_def truthy_def answering_def reporting_tools_def
          storing_def createSession_def refreshSession_def Let_def)
  from 1 good 2 3 4 5 6 show ?thesis by (simp add: hi_params_def)
qed

section \<open>Properties of the orchestrator\<close>

text \<open>
  C5. A run on an input that the schema rejects, in particular on every object that has
  neither a session identifier nor a working directory, returns the error "Invalid
  input" with the validation error as its cause. It writes one line to the console,
  calls neither the repository nor the agent, and leaves the world as it was.
\<close>

theorem invalid_input_no_effects:
  assumes "sendMessageStreamInputSchema input = None \<or>
           (\<exists>props. input = JObject props \<and> field_of props ''sessionId'' = JUndefined \<and>
                    field_of props ''cwd'' = JUndefined)"
  shows "sendMessageStream context input onChunk w =
           (Resolved (Err (ApplicationError ''Invalid input'' (Some ValidationError))),
            [ConsoleError ''[sendMessageStream] Input validation failed''], w)"
proof -
  from assms have "sendMessageStreamInputSchema input = None"
    by (auto simp: missing_both_rejected)
  then show ?thesis
    by (simp add: sendMessageStream_def validate_def)
qed

theorem invalid_input_no_effects_witness:
  "field_of [(''message'', JString ''hi'')] ''sessionId'' = JUndefined \<and>
   field_of [(''message'', JString ''hi'')] ''cwd'' = JUndefined \<and>
   sendMessageStream (scripted (Resolved (Ok None)) storing (Resolved (Ok [abc_result])))
     (JObject [(''message'', JString ''hi'')]) () 0 =
     (Resolved (Err (ApplicationError ''Invalid input'' (Some ValidationError))),
      [ConsoleError ''[sendMessageStream] Input validation failed''], 0)"
proof -
  have h: "field_of [(''message'', JString ''hi'')] ''sessionId'' = JUndefined \<and>
           field_of [(''message'', JString ''hi'')] ''cwd'' = JUndefined"
    by (simp add: field_of_def)
  then have "sendMessageStreamInputSchema (JObject [(''message'', JString ''hi'')]) = None \<or>
        (\<exists>props. JObject [(''message'', JString ''hi'')] = JObject props \<and>
                 field_of props ''sessionId'' = JUndefined \<and> field_of props ''cwd'' = JUndefined)"
    by blast
  from invalid_input_no_effects[OF this] h show ?thesis by simp
qed

text \<open>
  C6. On a valid input with a session identifier: when the lookup succeeds and reports
  no record, the run returns the error "Session not found"; when the lookup fails, the
  run returns the error "Failed to get session" with the failure of the lookup as its
  cause. In both cases the only call issued is the lookup: the agent is not called.
\<close>

theorem lookup_absent_or_failed:
  assumes valid: "sendMessageStreamInputSchema input = Some params"
    and sid: "sessionId params = Some sid"
  shows "(sessionRepository_findById context sid w = (Resolved (Ok None), w') \<longrightarrow>
            sendMessageStream context input onChunk w =
              (Resolved (Err (ApplicationError ''Session not found'' None)),
               [FindById sid, ConsoleError ''[sendMessageStream] Session not found''], w')) \<and>
         (sessionRepository_findById context sid w = (Resolved (Err e), w') \<longrightarrow>
            sendMessageStream context input onChunk w =
              (Resolved (Err (ApplicationError ''Failed to get session'' (Some (ServiceError e)))),
               [FindById sid, ConsoleError ''[sendMessageStream] Session retrieval failed''], w'))"
proof -
  from schema_valid(2)[OF valid] sid have t: "truthy (sessionId params) = Some sid" by simp
  then have ne: "sid \<noteq> []" by (auto simp: truthy_def sid split: if_splits)
  show ?thesis
    by (simp add: sendMessageStream_def validate_Some[OF valid] resolveSession_def t
          parse_sessionId[OF ne])
qed

theorem lookup_absent_or_failed_witness:
  "sendMessageStreamInputSchema go_input = Some go_params \<and> sessionId go_params = Some ''s1'' \<and>
   sendMessageStream (scripted (Resolved (Ok None)) storing (Resolved (Ok [abc_result])))
     go_input () 0 =
     (Resolved (Err (ApplicationError ''Session not found'' None)),
      [FindById ''s1'', ConsoleError ''[sendMessageStream] Session not found''], 0) \<and>
   sendMessageStream
     (scripted (Resolved (Err ''database unavailable'')) storing (Resolved (Ok [abc_result])))
     go_input () 0 =
     (Resolved (Err (ApplicationError ''Failed to get session''
                       (Some (ServiceError ''database unavailable'')))),
      [FindById ''s1'', ConsoleError ''[sendMessageStream] Session retrieval failed''], 0)"
proof -
  have sid: "sessionId go_params = Some ''s1''" by (simp add: go_params_def)
  have absent: "sessionRepository_findById
                  (scripted (Resolved (Ok None)) storing (Resolved (Ok [abc_result]))) ''s1'' 0 =
                (Resolved (Ok None), 0)"
    by (simp add: scripted_def)
  have failed: "sessionRepository_findById
                  (scripted (Resolved (Err ''database unavailable'')) storing
                     (Resolved (Ok [abc_result]))) ''s1'' 0 =
                (Resolved (Err ''database unavailable''), 0)"
    by (simp add: scripted_def)
  from lookup_absent_or_failed[OF go_valid sid,
         of "scripted (Resolved (Ok None)) storing (Resolved (Ok [abc_result]))" 0 0 "()"]
       lookup_absent_or_failed[OF go_valid sid,
         of "scripted (Resolved (Err ''database unavailable'')) storing (Resolved (Ok [abc_result]))"
            0 0 "()" "''database unavailable''"]
       absent failed go_valid sid
  show ?thesis by simp
qed

text \<open>
  C7. The working directory handed to the agent service is the one of the input when
  the input has one, otherwise the one of the resolved session. On a valid input with a
  session identifier whose lookup finds a session, the run applies the agent service,
  in the world left by the lookup, to parameters whose working directory is that of the
  input if there is one and that of the stored session if there is none. On a valid
  input without session identifier, the run applies the agent service to parameters
  whose working directory is that of the input. In both cases the outcome of the run is
  the one that follows from the answer of the service to these parameters: the caught
  fault when it throws, the wrapped failure when it fails, and on success the result
  of the rest of the run on the messages it returned.
\<close>

theorem effective_cwd:
  assumes valid: "sendMessageStreamInputSchema input = Some params"
  shows "(\<forall>sid s w1. sessionId params = Some sid \<and>
            sessionRepository_findById context sid w = (Resolved (Ok (Some s)), w1) \<longrightarrow>
            sendMessageStream context input onChunk w =
              (let p = \<lparr>a_message = message params, a_sessionId = truthy (Some (s_id s)),
                        a_cwd = (case cwd params of Some c \<Rightarrow> Some c | None \<Rightarrow> Some (s_cwd s)),
                        a_allowedTools = allowedTools params,
                        a_bypassPermissions = bypassPermissions params\<rparr>
               in case claudeService_sendMessageStream context p onChunk w1 of
                    (Rejected f, w2) \<Rightarrow>
                      (Resolved (Err (ApplicationError ''Unexpected error in sendMessageStream''
                                        (Some (Caught f)))),
                       [FindById sid, AgentSend p,
                        ConsoleError ''[sendMessageStream] Unexpected error occurred''], w2)
                  | (Resolved (Err e), w2) \<Rightarrow>
                      (Resolved (Err (ApplicationError ''Failed to send message to Claude''
                                        (Some (ServiceError e)))),
                       [FindById sid, AgentSend p,
                        ConsoleError ''[sendMessageStream] Claude API streaming call failed''],
                       w2)
                  | (Resolved (Ok messages), w2) \<Rightarrow>
                      (case sessionRepository_upsert context s w2 of
                         (Rejected f, w3) \<Rightarrow>
                           (Resolved (Err (ApplicationError
                                             ''Unexpected error in sendMessageStream''
                                             (Some (Caught f)))),
                            [FindById sid, AgentSend p, Upsert s,
                             ConsoleError ''[sendMessageStream] Unexpected error occurred''],
                            w3)
                       | (Resolved (Err e), w3) \<Rightarrow>
                           (Resolved (Ok (s, messages)),
                            [FindById sid, AgentSend p, Upsert s], w3)
                       | (Resolved (Ok s'), w3) \<Rightarrow>
                           (Resolved (Ok (s', messages)),
                            [FindById sid, AgentSend p, Upsert s], w3)))) \<and>
         (\<forall>c. sessionId params = None \<and> cwd params = Some c \<longrightarrow>
            sendMessageStream context input onChunk w =
              (let p = \<lparr>a_message = message params, a_sessionId = None, a_cwd = Some c,
                        a_allowedTools = allowedTools params,
                        a_bypassPermissions = bypassPermissions params\<rparr>
               in case claudeService_sendMessageStream context p onChunk w of
                    (Rejected f, w1) \<Rightarrow>
                      (Resolved (Err (ApplicationError ''Unexpected error in sendMessageStream''
                                        (Some (Caught f)))),
                       [AgentSend p,
                        ConsoleError ''[sendMessageStream] Unexpected error occurred''], w1)
                  | (Resolved (Err e), w1) \<Rightarrow>
                      (Resolved (Err (ApplicationError ''Failed to send message to Claude''
                                        (Some (ServiceError e)))),
                       [AgentSend p,
                        ConsoleError ''[sendMessageStream] Claude API streaming call failed''],
                       w1)
                  | (Resolved (Ok messages), w1) \<Rightarrow>
                      (case createSession context params None messages [AgentSend p] w1 of
                         (Rejected f, log, w2) \<Rightarrow>
                           (Resolved (Err (ApplicationError
                                             ''Unexpected error in sendMessageStream''
                                             (Some (Caught f)))),
                            log @ [ConsoleError ''[sendMessageStream] Unexpected error occurred''],
                            w2)
                       | (Resolved r, log, w2) \<Rightarrow> (Resolved r, log, w2))))"
proof (intro conjI allI impI)
  fix sid s w1
  assume h: "sessionId params = Some sid \<and>
            sessionRepository_findById context sid w = (Resolved (Ok (Some s)), w1)"
  then have sid: "sessionId params = Some sid"
    and found: "sessionRepository_findById context sid w = (Resolved (Ok (Some s)), w1)"
    by simp_all
  show "sendMessageStream context input onChunk w =
              (let p = \<lparr>a_message = message params, a_sessionId = truthy (Some (s_id s)),
                        a_cwd = (case cwd params of Some c \<Rightarrow> Some c | None \<Rightarrow> Some (s_cwd s)),
                        a_allowedTools = allowedTools params,
                        a_bypassPermissions = bypassPermissions params\<rparr>
               in case claudeService_sendMessageStream context p onChunk w1 of
                    (Rejected f, w2) \<Rightarrow>
                      (Resolved (Err (ApplicationError ''Unexpected error in sendMessageStream''
                                        (Some (Caught f)))),
                       [FindById sid, AgentSend p,
                        ConsoleError ''[sendMessageStream] Unexpected error occurred''], w2)
                  | (Resolved (Err e), w2) \<Rightarrow>
                      (Resolved (Err (ApplicationError ''Failed to send message to Claude''
                                        (Some (ServiceError e)))),
                       [FindById sid, AgentSend p,
                        ConsoleError ''[sendMessageStream] Claude API streaming call failed''],
                       w2)
                  | (Resolved (Ok messages), w2) \<Rightarrow>
                      (case sessionRepository_upsert context s w2 of
                         (Rejected f, w3) \<Rightarrow>
                           (Resolved (Err (ApplicationError
                                             ''Unexpected error in sendMessageStream''
                                             (Some (Caught f)))),
                            [FindById sid, AgentSend p, Upsert s,
                             ConsoleError ''[sendMessageStream] Unexpected error occurred''],
                            w3)
                       | (Resolved (Err e), w3) \<Rightarrow>
                           (Resolved (Ok (s, messages)),
                            [FindById sid, AgentSend p, Upsert s], w3)
                       | (Resolved (Ok s'), w3) \<Rightarrow>
                           (Resolved (Ok (s', messages)),
                            [FindById sid, AgentSend p, Upsert s], w3)))"
    unfolding run_existing_agent[OF valid sid found] agentParams_existing[OF valid]
      createSession_existing[OF valid sid]
    by (simp add: Let_def split: prod.splits Promise.splits Result.splits)
next
  fix c
  assume h: "sessionId params = None \<and> cwd params = Some c"
  then have new: "sessionId params = None" and dir: "cwd params = Some c" by simp_all
  show "sendMessageStream context input onChunk w =
              (let p = \<lparr>a_message = message params, a_sessionId = None, a_cwd = Some c,
                        a_allowedTools = allowedTools params,
                        a_bypassPermissions = bypassPermissions params\<rparr>
               in case claudeService_sendMessageStream context p onChunk w of
                    (Rejected f, w1) \<Rightarrow>
                      (Resolved (Err (ApplicationError ''Unexpected error in sendMessageStream''
                                        (Some (Caught f)))),
                       [AgentSend p,
                        ConsoleError ''[sendMessageStream] Unexpected error occurred''], w1)
                  | (Resolved (Err e), w1) \<Rightarrow>
                      (Resolved (Err (ApplicationError ''Failed to send message to Claude''
                                        (Some (ServiceError e)))),
                       [AgentSend p,
                        ConsoleError ''[sendMessageStream] Claude API streaming call failed''],
                       w1)
                  | (Resolved (Ok messages), w1) \<Rightarrow>
                      (case createSession context params None messages [AgentSend p] w1 of
                         (Rejected f, log, w2) \<Rightarrow>
                           (Resolved (Err (ApplicationError
                                             ''Unexpected error in sendMessageStream''
                                             (Some (Caught f)))),
                            log @ [ConsoleError ''[sendMessageStream] Unexpected error occurred''],
                            w2)
                       | (Resolved r, log, w2) \<Rightarrow> (Resolved r, log, w2)))"
    unfolding run_new_agent[OF valid new] agentParams_new[OF valid] dir
    by (rule refl)
qed

theorem effective_cwd_witness:
  "sendMessageStreamInputSchema go_input = Some go_params \<and>
   sessionId go_params = Some ''s1'' \<and> cwd go_params = None \<and>
   sessionRepository_findById
     (answering (Resolved (Ok (Some work_session))) storing reporting_cwd) ''s1'' 0 =
     (Resolved (Ok (Some work_session)), 0) \<and>
   sendMessageStream (answering (Resolved (Ok (Some work_session))) storing reporting_cwd)
     go_input () 0 =
     (Resolved (Ok (work_session, [ResultMessage ''abc'' ''/work''])),
      [FindById ''s1'',
       AgentSend \<lparr>a_message = ''go'', a_sessionId = Some ''s1'', a_cwd = Some ''/work'',
                  a_allowedTools = None, a_bypassPermissions = None\<rparr>,
       Upsert work_session], 1) \<and>
   sendMessageStreamInputSchema hi_input = Some hi_params \<and>
   sessionId hi_params = None \<and> cwd hi_params = Some ''/tmp/x'' \<and>
   sendMessageStream (answering (Resolved (Ok None)) storing reporting_cwd) hi_input () 0 =
     (Resolved (Ok (abc_session, [ResultMessage ''abc'' ''/tmp/x''])),
      [AgentSend \<lparr>a_message = ''hi'', a_sessionId = None, a_cwd = Some ''/tmp/x'',
                  a_allowedTools = None, a_bypassPermissions = None\<rparr>,
       Upsert abc_session, Upsert abc_session], 2)"
proof -
  let ?old = "answering (Resolved (Ok (Some work_session))) storing reporting_cwd"
  let ?new = "answering (Resolved (Ok None)) storing reporting_cwd"
  have go: "sessionId go_params = Some ''s1'' \<and>
            sessionRepository_findById ?old ''s1'' 0 = (Resolved (Ok (Some work_session)), 0)"
    by (simp add: go_params_def answering_def)
  have none: "cwd go_params = None" by (simp add: go_params_def)
  have hi: "sessionId hi_params = None \<and> cwd hi_params = Some ''/tmp/x''"
    by (simp add: hi_params_def)
  from effective_cwd[OF go_valid, of ?old 0 "()"]
  have "\<forall>sid s w1. sessionId go_params = Some sid \<and>
            sessionRepository_findById ?old sid 0 = (Resolved (Ok (Some s)), w1) \<longrightarrow>
            sendMessageStream ?old go_input () 0 =
              (let p = \<lparr>a_message = message go_params, a_sessionId = truthy (Some (s_id s)),
                        a_cwd = (case cwd go_params of Some c \<Rightarrow> Some c | None \<Rightarrow> Some (s_cwd s)),
                        a_allowedTools = allowedTools go_params,
                        a_bypassPermissions = bypassPermissions go_params\<rparr>
               in case claudeService_sendMessageStream ?old p () w1 of
                    (Rejected f, w2) \<Rightarrow>
                      (Resolved (Err (ApplicationError ''Unexpected error in sendMessageStream''
                                        (Some (Caught f)))),
                       [FindById sid, AgentSend p,
                        ConsoleError ''[sendMessageStream] Unexpected error occurred''], w2)
                  | (Resolved (Err e), w2) \<Rightarrow>
                      (Resolved (Err (ApplicationError ''Failed to send message to Claude''
                                        (Some (ServiceError e)))),
                       [FindById sid, AgentSend p,
                        ConsoleError ''[sendMessageStream] Claude API streaming call failed''],
                       w2)
                  | (Resolved (Ok messages), w2) \<Rightarrow>
                      (case sessionRepository_upsert ?old s w2 of
                         (Rejected f, w3) \<Rightarrow>
                           (Resolved (Err (ApplicationError
                                             ''Unexpected error in sendMessageStream''
                                             (Some (Caught f)))),
                            [FindById sid, AgentSend p, Upsert s,
                             ConsoleError ''[sendMessageStream] Unexpected error occurred''],
                            w3)
                       | (Resolved (Err e), w3) \<Rightarrow>
                           (Resolved (Ok (s, messages)),
                            [FindById sid, AgentSend p, Upsert s], w3)
                       | (Resolved (Ok s'), w3) \<Rightarrow>
                           (Resolved (Ok (s', messages)),
                            [FindById sid, AgentSend p, Upsert s], w3)))"
    by (rule conjunct1)
  from this[rule_format, OF go]
  have 1: "sendMessageStream ?old go_input () 0 =
     (Resolved (Ok (work_session, [ResultMessage ''abc'' ''/work''])),
      [FindById ''s1'',
       AgentSend \<lparr>a_message = ''go'', a_sessionId = Some ''s1'', a_cwd = Some ''/work'',
                  a_allowedTools = None, a_bypassPermissions = None\<rparr>,
       Upsert work_session], 1)"
    by (simp add: go_params_def work_session_def truthy_def answering_def reporting_cwd_def
          storing_def)
  from effective_cwd[OF hi_valid, of ?new 0 "()"]
  have "\<forall>c. sessionId hi_params = None \<and> cwd hi_params = Some c \<longrightarrow>
            sendMessageStream ?new hi_input () 0 =
              (let p = \<lparr>a_message = message hi_params, a_sessionId = None, a_cwd = Some c,
                        a_allowedTools = allowedTools hi_params,
                        a_bypassPermissions = bypassPermissions hi_params\<rparr>
               in case claudeService_sendMessageStream ?new p () 0 of
                    (Rejected f, w1) \<Rightarrow>
                      (Resolved (Err (ApplicationError ''Unexpected error in sendMessageStream''
                                        (Some (Caught f)))),
                       [AgentSend p,
                        ConsoleError ''[sendMessageStream] Unexpected error occurred''], w1)
                  | (Resolved (Err e), w1) \<Rightarrow>
                      (Resolved (Err (ApplicationError ''Failed to send message to Claude''
                                        (Some (ServiceError e)))),
                       [AgentSend p,
                        ConsoleError ''[sendMessageStream] Claude API streaming call failed''],
                       w1)
                  | (Resolved (Ok messages), w1) \<Rightarrow>
                      (case createSession ?new hi_params None messages [AgentSend p] w1 of
                         (Rejected f, log, w2) \<Rightarrow>
                           (Resolved (Err (ApplicationError
                                             ''Unexpected error in sendMessageStream''
                                             (Some (Caught f)))),
                            log @ [ConsoleError ''[sendMessageStream] Unexpected error occurred''],
                            w2)
                       | (Resolved r, log, w2) \<Rightarrow> (Resolved r, log, w2)))"
    by (rule conjunct2)
  from this[rule_format, OF hi]
  have 2: "sendMessageStream ?new hi_input () 0 =
     (Resolved (Ok (abc_session, [ResultMessage ''abc'' ''/tmp/x''])),
      [AgentSend \<lparr>a_message = ''hi'', a_sessionId = None, a_cwd = Some ''/tmp/x'',
                  a_allowedTools = None, a_bypassPermissions = None\<rparr>,
       Upsert abc_session, Upsert abc_session], 2)"
    by (simp add: hi_params_def abc_session_def truthy_def answering_def reporting_cwd_def
          storing_def createSession_def refreshSession_def firstSessionId_def
          isResultMessage_def parse_sessionId Let_def)
  from 1 2 go none hi go_valid hi_valid show ?thesis by simp
qed

text \<open>
  C8. A run never throws: whatever the input and whatever the collaborators do, also
  when they throw instead of returning a result, the run resolves to a tagged result.
  A value thrown inside the body is caught and returned as the error "Unexpected error
  in sendMessageStream" with the thrown value as its cause.
\<close>

theorem never_throws:
  "(\<exists>r. returned (sendMessageStream context input onChunk w) = Resolved r) \<and>
   (\<forall>params e log w'.
      sendMessageStreamInputSchema input = Some params \<and>
      resolveSession context params onChunk w = (Rejected e, log, w') \<longrightarrow>
      sendMessageStream context input onChunk w =
        (Resolved (Err (ApplicationError ''Unexpected error in sendMessageStream''
                          (Some (Caught e)))),
         log @ [ConsoleError ''[sendMessageStream] Unexpected error occurred''], w'))"
proof
  show "\<exists>r. returned (sendMessageStream context input onChunk w) = Resolved r"
    by (auto simp: returned_def sendMessageStream_def split: Result.splits prod.splits Promise.splits)
  show "\<forall>params e log w'.
      sendMessageStreamInputSchema input = Some params \<and>
      resolveSession context params onChunk w = (Rejected e, log, w') \<longrightarrow>
      sendMessageStream context input onChunk w =
        (Resolved (Err (ApplicationError ''Unexpected error in sendMessageStream''
                          (Some (Caught e)))),
         log @ [ConsoleError ''[sendMessageStream] Unexpected error occurred''], w')"
    by (simp add: sendMessageStream_def validate_def)
qed

theorem never_throws_witness:
  "sendMessageStreamInputSchema go_input = Some go_params \<and>
   resolveSession
     (scripted (Rejected (Fault ''connection reset'')) storing (Resolved (Ok [abc_result])))
     go_params () 0 = (Rejected (Fault ''connection reset''), [FindById ''s1''], 0) \<and>
   sendMessageStream
     (scripted (Rejected (Fault ''connection reset'')) storing (Resolved (Ok [abc_result])))
     go_input () 0 =
     (Resolved (Err (ApplicationError ''Unexpected error in sendMessageStream''
                       (Some (Caught (Fault ''connection reset''))))),
      [FindById ''s1'', ConsoleError ''[sendMessageStream] Unexpected error occurred''], 0)"
proof -
  have thrown: "resolveSession
     (scripted (Rejected (Fault ''connection reset'')) storing (Resolved (Ok [abc_result])))
     go_params () 0 = (Rejected (Fault ''connection reset''), [FindById ''s1''], 0)"
    by (simp add: resolveSession_def go_params_def truthy_def parse_sessionId scripted_def)
  from never_throws[of
         "scripted (Rejected (Fault ''connection reset'')) storing (Resolved (Ok [abc_result]))"
         go_input "()" 0] go_valid thrown
  have "sendMessageStream
     (scripted (Rejected (Fault ''connection reset'')) storing (Resolved (Ok [abc_result])))
     go_input () 0 =
     (Resolved (Err (ApplicationError ''Unexpected error in sendMessageStream''
                       (Some (Caught (Fault ''connection reset''))))),
      [FindById ''s1''] @ [ConsoleError ''[sendMessageStream] Unexpected error occurred''], 0)"
    by blast
  with go_valid thrown show ?thesis by simp
qed


text \<open>
  C4, as the claim states it, fails: there is no error dedicated to a missing session
  identifier. A new-session run whose agent returns no result message ends in the
  handler of the \<open>try\<close> block, with the same error as a run whose agent throws.
\<close>

theorem missing_id_error_is_generic:
  "returned (sendMessageStream
     (scripted (Resolved (Ok None)) storing (Resolved (Ok [OtherMessage ''hello''])))
     hi_input () 0) =
     Resolved (Err (ApplicationError ''Unexpected error in sendMessageStream''
                      (Some (Caught ZodError)))) \<and>
   returned (sendMessageStream
     (scripted (Resolved (Ok None)) storing (Rejected (Fault ''socket closed'')))
     hi_input () 0) =
     Resolved (Err (ApplicationError ''Unexpected error in sendMessageStream''
                      (Some (Caught (Fault ''socket closed'')))))"
  by (simp add: returned_def sendMessageStream_def validate_def hi_valid resolveSession_def
        sendToClaude_def createSession_def hi_params_def truthy_def firstSessionId_def
        isResultMessage_def parse_undefined scripted_def)

text \<open>
  C4, amended. On a valid input without session identifier, when the agent call
  succeeds and none of the returned messages is a result message, the run fails with
  the error of the handler of the \<open>try\<close> block, "Unexpected error in
  sendMessageStream", whose cause is the failed parse of the missing identifier. The
  call of the agent is the only call issued: no session record is created.
\<close>

theorem missing_session_id:
  assumes valid: "sendMessageStreamInputSchema input = Some params"
    and new: "sessionId params = None"
    and agent: "claudeService_sendMessageStream context (agentParams params None) onChunk w =
                  (Resolved (Ok messages), w')"
    and nores: "\<forall>m \<in> set messages. \<not> isResultMessage m"
  shows "sendMessageStream context input onChunk w =
           (Resolved (Err (ApplicationError ''Unexpected error in sendMessageStream''
                             (Some (Caught ZodError)))),
            [AgentSend (agentParams params None),
             ConsoleError ''[sendMessageStream] Unexpected error occurred''], w')"
proof -
  from schema_valid(4)[OF valid new] obtain c where c: "cwd params = Some c" by auto
  have tc: "truthy (cwd params) = Some c" using schema_valid(3)[OF valid] c by simp
  have ts: "truthy (sessionId params) = None" using schema_valid(2)[OF valid] new by simp
  show ?thesis
    by (simp add: sendMessageStream_def validate_Some[OF valid] resolveSession_def ts
          sendToClaude_def agent createSession_def tc firstSessionId_none[OF nores]
          parse_undefined)
qed

theorem missing_session_id_witness:
  "sendMessageStreamInputSchema hi_input = Some hi_params \<and> sessionId hi_params = None \<and>
   \<not> isResultMessage (OtherMessage ''hello'') \<and>
   sendMessageStream
     (scripted (Resolved (Ok None)) storing (Resolved (Ok [OtherMessage ''hello''])))
     hi_input () 0 =
     (Resolved (Err (ApplicationError ''Unexpected error in sendMessageStream''
                       (Some (Caught ZodError)))),
      [AgentSend \<lparr>a_message = ''hi'', a_sessionId = None, a_cwd = Some ''/tmp/x'',
                  a_allowedTools = None, a_bypassPermissions = None\<rparr>,
       ConsoleError ''[sendMessageStream] Unexpected error occurred''], 0)"
proof -
  have new: "sessionId hi_params = None" by (simp add: hi_params_def)
  have agent: "claudeService_sendMessageStream
                 (scripted (Resolved (Ok None)) storing (Resolved (Ok [OtherMessage ''hello''])))
                 (agentParams hi_params None) () 0 =
               (Resolved (Ok [OtherMessage ''hello'']), 0)"
    by (simp add: scripted_def)
  have nores: "\<forall>m \<in> set [OtherMessage ''hello'']. \<not> isResultMessage m"
    by (simp add: isResultMessage_def)
  have params: "agentParams hi_params None =
                  \<lparr>a_message = ''hi'', a_sessionId = None, a_cwd = Some ''/tmp/x'',
                   a_allowedTools = None, a_bypassPermissions = None\<rparr>"
    by (simp add: agentParams_def hi_params_def truthy_def)
  from missing_session_id[OF hi_valid new agent nores] hi_valid new nores params
  show ?thesis by simp
qed

text \<open>
  C1, as the claim states it, fails: a successful agent call that returns a result
  message does not make the run succeed when the creating upsert fails.
\<close>

theorem create_failure_fails_run:
  "returned (sendMessageStream
     (scripted (Resolved (Ok None)) failing (Resolved (Ok [abc_result]))) hi_input () 0) =
     Resolved (Err (ApplicationError ''Failed to create session''
                      (Some (ServiceError ''database unavailable''))))"
  by (simp add: returned_def sendMessageStream_def validate_def hi_valid resolveSession_def
        sendToClaude_def createSession_def hi_params_def truthy_def firstSessionId_def
        isResultMessage_def abc_result_def parse_sessionId scripted_def failing_def)

text \<open>
  C1, amended. On a valid input without session identifier and with a working
  directory, when the agent call succeeds, the first result message among the returned
  messages carries a non-empty session identifier, the creating upsert succeeds and the
  refreshing upsert returns, the run succeeds. The creating upsert is issued with that
  identifier, the working directory of the input and neither project nor name; the
  refreshing upsert is issued with the session the store returned. The run returns the
  session that the store returned last (from the refresh when it succeeded, otherwise
  from the creation) and all the messages of the agent, in order. With a store that
  returns what it is given, the input \<open>{message: "hi", cwd: "/tmp/x"}\<close> and one result
  message with identifier \<open>"abc"\<close> give the session \<open>{id: "abc", cwd: "/tmp/x"}\<close> and
  that message.
\<close>

theorem new_session_created:
  assumes valid: "sendMessageStreamInputSchema input = Some params"
    and new: "sessionId params = None"
    and dir: "cwd params = Some c"
    and agent: "claudeService_sendMessageStream context (agentParams params None) onChunk w =
                  (Resolved (Ok messages), w1)"
    and first: "messages = pre @ ResultMessage sid body # post"
               "\<forall>m \<in> set pre. \<not> isResultMessage m"
    and nonempty: "sid \<noteq> []"
    and create: "sessionRepository_upsert context
                   \<lparr>s_id = sid, s_projectId = None, s_name = None, s_cwd = c\<rparr> w1 =
                   (Resolved (Ok created), w2)"
    and refresh: "sessionRepository_upsert context created w2 = (Resolved refreshed, w3)"
  shows "sendMessageStream context input onChunk w =
           (Resolved (Ok (case refreshed of Ok s \<Rightarrow> s | Err e \<Rightarrow> created, messages)),
            [AgentSend (agentParams params None),
             Upsert \<lparr>s_id = sid, s_projectId = None, s_name = None, s_cwd = c\<rparr>,
             Upsert created],
            w3)"
  using run_new_session[OF valid new dir agent first nonempty]
  by (simp add: create refresh split: Result.splits)

theorem new_session_created_witness:
  "sendMessageStreamInputSchema hi_input = Some hi_params \<and>
   sessionId hi_params = None \<and> cwd hi_params = Some ''/tmp/x'' \<and>
   [abc_result] = [] @ ResultMessage ''abc'' ''done'' # [] \<and>
   sendMessageStream (scripted (Resolved (Ok None)) storing (Resolved (Ok [abc_result])))
     hi_input () 0 =
     (Resolved (Ok (abc_session, [abc_result])),
      [AgentSend \<lparr>a_message = ''hi'', a_sessionId = None, a_cwd = Some ''/tmp/x'',
                  a_allowedTools = None, a_bypassPermissions = None\<rparr>,
       Upsert abc_session, Upsert abc_session], 2)"
proof -
  let ?store = "scripted (Resolved (Ok None)) storing (Resolved (Ok [abc_result]))"
  have new: "sessionId hi_params = None" and dir: "cwd hi_params = Some ''/tmp/x''"
    by (simp_all add: hi_params_def)
  have agent: "claudeService_sendMessageStream ?store (agentParams hi_params None) () 0 =
               (Resolved (Ok [abc_result]), 0)"
    by (simp add: scripted_def)
  have first: "[abc_result] = [] @ ResultMessage ''abc'' ''done'' # []"
    by (simp add: abc_result_def)
  have pre: "\<forall>m \<in> set []. \<not> isResultMessage m" by simp
  have nonempty: "''abc'' \<noteq> []" by simp
  have create: "sessionRepository_upsert ?store
                  \<lparr>s_id = ''abc'', s_projectId = None, s_name = None, s_cwd = ''/tmp/x''\<rparr> 0 =
                (Resolved (Ok abc_session), 1)"
    by (simp add: scripted_def storing_def abc_session_def)
  have refresh: "sessionRepository_upsert ?store abc_session 1 = (Resolved (Ok abc_session), 2)"
    by (simp add: scripted_def storing_def)
  have params: "agentParams hi_params None =
                  \<lparr>a_message = ''hi'', a_sessionId = None, a_cwd = Some ''/tmp/x'',
                   a_allowedTools = None, a_bypassPermissions = None\<rparr>"
    by (simp add: agentParams_def hi_params_def truthy_def)
  from new_session_created[OF hi_valid new dir agent first pre nonempty create refresh]
  have "sendMessageStream ?store hi_input () 0 =
     (Resolved (Ok (abc_session, [abc_result])),
      [AgentSend (agentParams hi_params None),
       Upsert \<lparr>s_id = ''abc'', s_projectId = None, s_name = None, s_cwd = ''/tmp/x''\<rparr>,
       Upsert abc_session], 2)"
    by simp
  with hi_valid new dir first params show ?thesis
    by (simp add: abc_session_def)
qed

text \<open>
  C2, as the claim states it, fails in one part: the failure of the refreshing upsert
  is not logged. In this run the refreshing upsert fails, the run succeeds with the
  session read from the store, and nothing is written to the console.
\<close>

theorem refresh_failure_not_logged:
  "sessionRepository_upsert
     (scripted (Resolved (Ok (Some work_session))) failing (Resolved (Ok [abc_result])))
     work_session 0 = (Resolved (Err ''database unavailable''), 1) \<and>
   returned (sendMessageStream
     (scripted (Resolved (Ok (Some work_session))) failing (Resolved (Ok [abc_result])))
     go_input () 0) = Resolved (Ok (work_session, [abc_result])) \<and>
   consoleErrors (logged (sendMessageStream
     (scripted (Resolved (Ok (Some work_session))) failing (Resolved (Ok [abc_result])))
     go_input () 0)) = []"
proof -
  let ?store = "scripted (Resolved (Ok (Some work_session))) failing (Resolved (Ok [abc_result]))"
  have sid: "sessionId go_params = Some ''s1''" by (simp add: go_params_def)
  have found: "sessionRepository_findById ?store ''s1'' 0 = (Resolved (Ok (Some work_session)), 0)"
    by (simp add: scripted_def)
  have agent: "claudeService_sendMessageStream ?store (agentParams go_params (Some work_session))
                 () 0 = (Resolved (Ok [abc_result]), 0)"
    by (simp add: scripted_def)
  have refresh: "sessionRepository_upsert ?store work_session 0 =
                   (Resolved (Err ''database unavailable''), 1)"
    by (simp add: scripted_def failing_def)
  from run_existing_session[OF go_valid sid found agent] refresh
  show ?thesis
    by (simp add: returned_def logged_def consoleErrors_def)
qed

text \<open>
  C2, amended. When validation, the resolution of the session, the agent call and, on
  the new-session path, the creating upsert succeed and the refreshing upsert returns
  a failure, the run still returns success, with all the messages of the agent and the
  session held before the refresh: the stored session on the existing-session path,
  the created session on the new-session path. The failure is not surfaced, and it is
  not logged either: the run issues its calls and writes nothing to the console.
\<close>

theorem refresh_failure_swallowed:
  assumes valid: "sendMessageStreamInputSchema input = Some params"
  shows "(sessionId params = Some sid \<and>
          sessionRepository_findById context sid w = (Resolved (Ok (Some s)), w1) \<and>
          claudeService_sendMessageStream context (agentParams params (Some s)) onChunk w1 =
            (Resolved (Ok messages), w2) \<and>
          sessionRepository_upsert context s w2 = (Resolved (Err e), w3) \<longrightarrow>
          sendMessageStream context input onChunk w =
            (Resolved (Ok (s, messages)),
             [FindById sid, AgentSend (agentParams params (Some s)), Upsert s], w3)) \<and>
         (sessionId params = None \<and> cwd params = Some c \<and>
          claudeService_sendMessageStream context (agentParams params None) onChunk w =
            (Resolved (Ok messages'), v1) \<and>
          messages' = pre @ ResultMessage new_id body # post \<and>
          (\<forall>m \<in> set pre. \<not> isResultMessage m) \<and> new_id \<noteq> [] \<and>
          sessionRepository_upsert context
            \<lparr>s_id = new_id, s_projectId = None, s_name = None, s_cwd = c\<rparr> v1 =
            (Resolved (Ok created), v2) \<and>
          sessionRepository_upsert context created v2 = (Resolved (Err e'), v3) \<longrightarrow>
          sendMessageStream context input onChunk w =
            (Resolved (Ok (created, messages')),
             [AgentSend (agentParams params None),
              Upsert \<lparr>s_id = new_id, s_projectId = None, s_name = None, s_cwd = c\<rparr>,
              Upsert created], v3))"
proof (intro conjI impI)
  assume h: "sessionId params = Some sid \<and>
          sessionRepository_findById context sid w = (Resolved (Ok (Some s)), w1) \<and>
          claudeService_sendMessageStream context (agentParams params (Some s)) onChunk w1 =
            (Resolved (Ok messages), w2) \<and>
          sessionRepository_upsert context s w2 = (Resolved (Err e), w3)"
  then have sid: "sessionId params = Some sid"
    and found: "sessionRepository_findById context sid w = (Resolved (Ok (Some s)), w1)"
    and agent: "claudeService_sendMessageStream context (agentParams params (Some s)) onChunk w1 =
            (Resolved (Ok messages), w2)"
    and refresh: "sessionRepository_upsert context s w2 = (Resolved (Err e), w3)"
    by simp_all
  from run_existing_session[OF valid sid found agent]
  show "sendMessageStream context input onChunk w =
            (Resolved (Ok (s, messages)),
             [FindById sid, AgentSend (agentParams params (Some s)), Upsert s], w3)"
    by (simp add: refresh)
next
  assume h: "sessionId params = None \<and> cwd params = Some c \<and>
          claudeService_sendMessageStream context (agentParams params None) onChunk w =
            (Resolved (Ok messages'), v1) \<and>
          messages' = pre @ ResultMessage new_id body # post \<and>
          (\<forall>m \<in> set pre. \<not> isResultMessage m) \<and> new_id \<noteq> [] \<and>
          sessionRepository_upsert context
            \<lparr>s_id = new_id, s_projectId = None, s_name = None, s_cwd = c\<rparr> v1 =
            (Resolved (Ok created), v2) \<and>
          sessionRepository_upsert context created v2 = (Resolved (Err e'), v3)"
  then have new: "sessionId params = None" and dir: "cwd params = Some c"
    and agent: "claudeService_sendMessageStream context (agentParams params None) onChunk w =
            (Resolved (Ok messages'), v1)"
    and first: "messages' = pre @ ResultMessage new_id body # post"
               "\<forall>m \<in> set pre. \<not> isResultMessage m"
    and nonempty: "new_id \<noteq> []"
    and create: "sessionRepository_upsert context
            \<lparr>s_id = new_id, s_projectId = None, s_name = None, s_cwd = c\<rparr> v1 =
            (Resolved (Ok created), v2)"
    and refresh: "sessionRepository_upsert context created v2 = (Resolved (Err e'), v3)"
    by simp_all
  from run_new_session[OF valid new dir agent first nonempty]
  show "sendMessageStream context input onChunk w =
            (Resolved (Ok (created, messages')),
             [AgentSend (agentParams params None),
              Upsert \<lparr>s_id = new_id, s_projectId = None, s_name = None, s_cwd = c\<rparr>,
              Upsert created], v3)"
    by (simp add: create refresh)
qed

theorem refresh_failure_swallowed_witness:
  "sendMessageStreamInputSchema go_input = Some go_params \<and>
   sessionRepository_upsert
     (scripted (Resolved (Ok (Some work_session))) failing (Resolved (Ok [abc_result])))
     work_session 0 = (Resolved (Err ''database unavailable''), 1) \<and>
   sendMessageStream
     (scripted (Resolved (Ok (Some work_session))) failing (Resolved (Ok [abc_result])))
     go_input () 0 =
     (Resolved (Ok (work_session, [abc_result])),
      [FindById ''s1'',
       AgentSend \<lparr>a_message = ''go'', a_sessionId = Some ''s1'', a_cwd = Some ''/work'',
                  a_allowedTools = None, a_bypassPermissions = None\<rparr>,
       Upsert work_session], 1) \<and>
   sendMessageStreamInputSchema hi_input = Some hi_params \<and>
   sessionRepository_upsert
     (scripted (Resolved (Ok None)) failing_after_first (Resolved (Ok [abc_result])))
     abc_session 1 = (Resolved (Err ''database unavailable''), 2) \<and>
   sendMessageStream
     (scripted (Resolved (Ok None)) failing_after_first (Resolved (Ok [abc_result])))
     hi_input () 0 =
     (Resolved (Ok (abc_session, [abc_result])),
      [AgentSend \<lparr>a_message = ''hi'', a_sessionId = None, a_cwd = Some ''/tmp/x'',
                  a_allowedTools = None, a_bypassPermissions = None\<rparr>,
       Upsert abc_session, Upsert abc_session], 2)"
proof -
  let ?old = "scripted (Resolved (Ok (Some work_session))) failing (Resolved (Ok [abc_result]))"
  let ?new = "scripted (Resolved (Ok None)) failing_after_first (Resolved (Ok [abc_result]))"
  have existing: "sessionId go_params = Some ''s1'' \<and>
          sessionRepository_findById ?old ''s1'' 0 = (Resolved (Ok (Some work_session)), 0) \<and>
          claudeService_sendMessageStream ?old (agentParams go_params (Some work_session)) () 0 =
            (Resolved (Ok [abc_result]), 0) \<and>
          sessionRepository_upsert ?old work_session 0 =
            (Resolved (Err ''database unavailable''), 1)"
    by (simp add: go_params_def scripted_def failing_def)
  have fresh: "sessionId hi_params = None \<and> cwd hi_params = Some ''/tmp/x'' \<and>
          claudeService_sendMessageStream ?new (agentParams hi_params None) () 0 =
            (Resolved (Ok [abc_result]), 0) \<and>
          [abc_result] = [] @ ResultMessage ''abc'' ''done'' # [] \<and>
          (\<forall>m \<in> set []. \<not> isResultMessage m) \<and> ''abc'' \<noteq> [] \<and>
          sessionRepository_upsert ?new
            \<lparr>s_id = ''abc'', s_projectId = None, s_name = None, s_cwd = ''/tmp/x''\<rparr> 0 =
            (Resolved (Ok abc_session), 1) \<and>
          sessionRepository_upsert ?new abc_session 1 =
            (Resolved (Err ''database unavailable''), 2)"
    by (simp add: hi_params_def scripted_def failing_after_first_def storing_def failing_def
          abc_result_def abc_session_def)
  have old_params: "agentParams go_params (Some work_session) =
                  \<lparr>a_message = ''go'', a_sessionId = Some ''s1'', a_cwd = Some ''/work'',
                   a_allowedTools = None, a_bypassPermissions = None\<rparr>"
    by (simp add: agentParams_def go_params_def work_session_def truthy_def)
  have new_params: "agentParams hi_params None =
                  \<lparr>a_message = ''hi'', a_sessionId = None, a_cwd = Some ''/tmp/x'',
                   a_allowedTools = None, a_bypassPermissions = None\<rparr>"
    by (simp add: agentParams_def hi_params_def truthy_def)
  from refresh_failure_swallowed[OF go_valid,
         of "''s1''" ?old 0 work_session 0 "()" "[abc_result]" 0 "''database unavailable''" 1]
       existing
  have 1: "sendMessageStream ?old go_input () 0 =
     (Resolved (Ok (work_session, [abc_result])),
      [FindById ''s1'', AgentSend (agentParams go_params (Some work_session)),
       Upsert work_session], 1)"
    by blast
  from refresh_failure_swallowed[OF hi_valid,
         of _ ?new 0 _ _ "()" _ _ _ _ "''/tmp/x''" "[abc_result]" 0 "[]" "''abc''" "''done''" "[]"
            abc_session 1 "''database unavailable''" 2]
       fresh
  have 2: "sendMessageStream ?new hi_input () 0 =
     (Resolved (Ok (abc_session, [abc_result])),
      [AgentSend (agentParams hi_params None),
       Upsert \<lparr>s_id = ''abc'', s_projectId = None, s_name = None, s_cwd = ''/tmp/x''\<rparr>,
       Upsert abc_session], 2)"
    by blast
  from 1 2 existing fresh go_valid hi_valid old_params new_params show ?thesis
    by (simp add: abc_session_def)
qed

end
